theory Spec2Isabelle
  imports Complex_Main
begin

section \<open>Staff entities of \<open>common.py\<close>: teachers, their metrics and workflows\<close>

text \<open>
  The module is a set of Django models. Each model class is a \<^theory_text>\<open>record\<close>,
  the tables it queries are lists of rows held in one database record, every method that
  writes takes the database and returns the new one, and every exception the methods can
  meet is a value of \<open>error\<close>.
\<close>

subsection \<open>Strings\<close>

text \<open>
  A Python \<open>str\<close> is a sequence of Unicode code points. Text that can hold Cyrillic
  (the position, a rendered language name, a first name) is a list of code points;
  identifiers that the source writes as ASCII literals (codes, group names, assets) are
  \<open>string\<close>.
\<close>

type_synonym ustring = "nat list"

text \<open>\<open>sep.join(xs)\<close>.\<close>

fun join :: "'a list \<Rightarrow> 'a list list \<Rightarrow> 'a list" where
  "join sep [] = []"
| "join sep [x] = x"
| "join sep (x # y # ys) = x @ sep @ join sep (y # ys)"

text \<open>\<open>sub in s\<close> on strings: \<open>sub\<close> occurs somewhere in \<open>s\<close>.\<close>

fun str_in :: "'a list \<Rightarrow> 'a list \<Rightarrow> bool" where
  "str_in sub [] = (sub = [])"
| "str_in sub (c # cs) = (take (length sub) (c # cs) = sub \<or> str_in sub cs)"

text \<open>The literals of \<open>generate_position\<close>, as code points.\<close>

definition comma_space :: ustring where
  "comma_space = [44, 32]"

definition position_head :: ustring where
  \<comment> \<open>\<open>'Prepodavatel '\<close> in Cyrillic, with its trailing space\<close>
  "position_head = [1055, 1088, 1077, 1087, 1086, 1076, 1072, 1074, 1072, 1090, 1077, 1083, 1100, 32]"

definition position_noun :: ustring where
  \<comment> \<open>\<open>' yazyk'\<close> in Cyrillic, with its leading space\<close>
  "position_noun = [32, 1103, 1079, 1099, 1082]"

definition suffix_plural :: ustring where
  \<comment> \<open>\<open>'ov'\<close> in Cyrillic\<close>
  "suffix_plural = [1086, 1074]"

definition suffix_singular :: ustring where
  \<comment> \<open>\<open>'a'\<close> in Cyrillic\<close>
  "suffix_singular = [1072]"

definition native_suffix :: ustring where
  \<comment> \<open>\<open>', nositel'\<close> in Cyrillic\<close>
  "native_suffix = [44, 32, 1085, 1086, 1089, 1080, 1090, 1077, 1083, 1100]"

subsection \<open>Errors\<close>

text \<open>The exceptions the methods of the module can meet; a method that can raise returns
  \<open>error + 'a\<close>, with \<open>Inl\<close> for the exception.\<close>

datatype error =
    ZeroDivisionError
  | OverflowError
  | IntegrityError
  | DoesNotExist
  | ValueError
  | FileNotFoundError
  | PermissionError
  | NotADirectoryError

subsection \<open>Python floats\<close>

text \<open>
  A finite Python \<open>float\<close> is an IEEE 754 binary64 number; it is modelled by the
  rational it denotes (the sign of zero is not kept). \<open>nearest_double n d\<close> is the
  binary64 number nearest to \<open>n / d\<close> for \<open>d > 0\<close>, ties to the even mantissa:
  the quotient is rounded to a multiple of \<open>2 ^ (e - 52)\<close>, where \<open>e\<close> is its binary
  exponent, at least \<open>- 1022\<close> (below that the numbers are subnormal).
\<close>

fun floor_log2 :: "nat \<Rightarrow> nat" where
  "floor_log2 n = (if n < 2 then 0 else Suc (floor_log2 (n div 2)))"

declare floor_log2.simps [simp del]

definition pow2 :: "int \<Rightarrow> rat" where
  "pow2 e = (if 0 \<le> e then 2 ^ nat e else 1 / 2 ^ nat (- e))"

definition round_half_even :: "rat \<Rightarrow> int" where
  "round_half_even x =
     (let f = \<lfloor>x\<rfloor>; r = x - of_int f
      in if r < 1 / 2 then f else if 1 / 2 < r then f + 1 else if even f then f else f + 1)"

definition binary_exponent :: "int \<Rightarrow> int \<Rightarrow> int" where
  "binary_exponent n d =
     (let e0 = int (floor_log2 (nat \<bar>n\<bar>)) - int (floor_log2 (nat d))
      in if pow2 e0 \<le> of_int \<bar>n\<bar> / of_int d then e0 else e0 - 1)"

definition nearest_double :: "int \<Rightarrow> int \<Rightarrow> rat" where
  "nearest_double n d =
     (if n = 0 then 0
      else let q = pow2 (max (binary_exponent n d) (- 1022) - 52)
           in of_int (round_half_even (of_int n / of_int d / q)) * q)"

text \<open>The quotient rounds to \<open>2 ^ 1024\<close> or beyond: it has no binary64 value.\<close>

definition double_overflow :: "int \<Rightarrow> int \<Rightarrow> bool" where
  "double_overflow n d = ((2 ^ 1024 - 2 ^ 970) * d \<le> \<bar>n\<bar>)"

text \<open>\<open>a / b\<close> on two Python ints: the correctly rounded quotient, \<open>ZeroDivisionError\<close>
  for a zero divisor, \<open>OverflowError\<close> when the quotient is too large for a float.\<close>

definition truediv :: "int \<Rightarrow> int \<Rightarrow> error + rat" where
  "truediv a b =
     (if b = 0 then Inl ZeroDivisionError
      else let n = (if b < 0 then - a else a); d = \<bar>b\<bar>
           in if double_overflow n d then Inl OverflowError else Inr (nearest_double n d))"

text \<open>
  \<open>round(x, ndigits)\<close> on a float, for \<open>ndigits \<ge> 0\<close>: the exact value of \<open>x\<close> is
  rounded to \<open>ndigits\<close> decimal places, ties to even, and the decimal is converted back to
  the nearest float. A float of magnitude \<open>2 ^ 52\<close> or more is an integer and is returned
  as it is, a smaller one moves by at most a half, so the result is always in range.
\<close>

definition py_round :: "rat \<Rightarrow> nat \<Rightarrow> rat" where
  "py_round x ndigits = nearest_double (round_half_even (x * 10 ^ ndigits)) (10 ^ ndigits)"

subsection \<open>Languages and teachers\<close>

text \<open>
  \<open>language.models.Language\<close> is outside this module; the record holds the two
  identifying columns the module reads, \<open>code\<close> and \<open>machine_name\<close>.
\<close>

record language =
  pk :: nat
  code :: string
  machine_name :: string

text \<open>
  A \<open>Teacher\<close> row. \<open>user\<close> is the key of the linked account, \<open>language\<close> the
  related primary language, \<open>additional_languages\<close> the rows of the many-to-many
  relation.
\<close>

record teacher =
  pk :: nat
  user :: nat
  position :: "ustring option"
  language :: language
  additional_languages :: "language list"
  russian :: bool
  native :: bool
  language_support :: bool

text \<open>
  Rows of the lesson tables of \<open>courses.models\<close>, with the columns this module reads. A
  foreign key the module follows (\<open>lesson.course\<close>, \<open>course.base_course\<close>) is the
  related row; \<open>teacher_id\<close> and \<open>student\<close> are keys. \<open>created\<close> and \<open>start\<close> are
  points in time.
\<close>

record base_course =
  code :: string
  language :: language

record student_course =
  pk :: nat
  student :: nat
  base_course :: base_course
  created :: int

record single_teacher_lesson =
  pk :: nat
  teacher_id :: nat
  course :: student_course
  finished :: bool
  start :: int

text \<open>Availability rows (\<open>freetime_set\<close>, \<open>freetimetemplate_set\<close>) and user accounts.\<close>

record free_time =
  pk :: nat
  teacher_id :: nat
  available :: bool

record free_time_template =
  pk :: nat
  teacher_id :: nat
  available :: bool

record user_account =
  pk :: nat
  first_name :: ustring
  is_active :: bool
  password :: string

text \<open>Rows written by onboarding: salary profiles, test assignments, mail handed to
  \<open>send_html_mail\<close>; and the signals sent.\<close>

record salary_profile =
  user_id :: nat

record date =
  year :: int
  month :: int
  day :: int

record user_test =
  user_id :: nat
  asset :: string
  due_date :: date

record mail =
  recipient :: nat
  subject :: string
  template :: string
  ctx_name :: ustring
  ctx_password :: string
  ctx_teacher :: nat
  ctx_native :: bool

datatype signal = teacher_blocked nat

record database =
  Language_objects :: "language list"
  Teacher_objects :: "teacher list"
  SingleTeacherLesson_objects :: "single_teacher_lesson list"
  StudentCourse_objects :: "student_course list"
  FreeTimeTemplate_objects :: "free_time_template list"
  FreeTime_objects :: "free_time list"
  User_objects :: "user_account list"
  SalaryProfile_objects :: "salary_profile list"
  Group_objects :: "string list"
  user_groups :: "(nat \<times> string) list"
  UserTest_objects :: "user_test list"
  outbox :: "mail list"
  signals_sent :: "signal list"

definition empty_database :: database where
  "empty_database =
     \<lparr>Language_objects = [], Teacher_objects = [], SingleTeacherLesson_objects = [],
      StudentCourse_objects = [], FreeTimeTemplate_objects = [], FreeTime_objects = [],
      User_objects = [], SalaryProfile_objects = [], Group_objects = [], user_groups = [],
      UserTest_objects = [], outbox = [], signals_sent = []\<rparr>"

subsection \<open>Languages of a teacher\<close>

definition all_languages_codes :: "teacher \<Rightarrow> string set" where
  "all_languages_codes self =
     {language.code (teacher.language self)} \<union> set (map language.code (additional_languages self))"

subsection \<open>The cache of the derived metrics\<close>

text \<open>
  Modelled from the spec: the decorator \<open>cached\<close> of \<open>employees.cache\<close> and
  \<open>days2sec\<close> of \<open>portal.utils.dates\<close> are not part of this module. The spec gives
  the cache a key per teacher and metric, a fixed expiry of 24 hours and no invalidation:
  a read within the expiry returns the stored number, any other read computes the number
  and stores it under the key until \<open>now + timeout\<close>.
\<close>

type_synonym cache = "string \<rightharpoonup> int \<times> nat"

definition days2sec :: "nat \<Rightarrow> nat" where
  "days2sec d = d * 86400"

definition cached :: "string \<Rightarrow> nat \<Rightarrow> cache \<Rightarrow> nat \<Rightarrow> int \<Rightarrow> int \<times> cache" where
  "cached key timeout c now computed =
     (case c key of
        Some (stored, expires) \<Rightarrow>
          if now < expires then (stored, c)
          else (computed, c(key \<mapsto> (computed, now + timeout)))
      | None \<Rightarrow> (computed, c(key \<mapsto> (computed, now + timeout))))"

text \<open>\<open>'{}'.format(n)\<close> on a key: its decimal digits.\<close>

fun str_nat :: "nat \<Rightarrow> string" where
  "str_nat n =
     (if n < 10 then [char_of (48 + n)] else str_nat (n div 10) @ [char_of (48 + n mod 10)])"

declare str_nat.simps [simp del]

subsection \<open>Demo lessons and conversion\<close>

definition DEMOS_MIN :: int where
  "DEMOS_MIN = 10"

text \<open>
  \<open>Teacher._finished_demo_lessons\<close>: the lessons of this teacher that are finished and
  whose course is a demo course.
\<close>

definition finished_demo_lessons_queryset :: "database \<Rightarrow> teacher \<Rightarrow> single_teacher_lesson list" where
  "finished_demo_lessons_queryset db self =
     filter
       (\<lambda>l. single_teacher_lesson.teacher_id l = teacher.pk self
          \<and> (base_course.code (base_course (course l)) = ''DEMO''
             \<or> base_course.code (base_course (course l)) = ''NATIVE-DEMO'')
          \<and> finished l)
       (SingleTeacherLesson_objects db)"

definition finished_demo_lessons :: "database \<Rightarrow> cache \<Rightarrow> nat \<Rightarrow> teacher \<Rightarrow> int \<times> cache" where
  "finished_demo_lessons db c now self =
     cached (''FINISHED_DEMO__'' @ str_nat (teacher.pk self)) (days2sec 1) c now
       (int (length (finished_demo_lessons_queryset db self)))"

text \<open>
  The query in the loop of \<open>paid_after_demo\<close>: the courses of the student, without those
  created before the lesson started and without the demo courses; \<open>exists()\<close>.
\<close>

definition paid_course_exists :: "database \<Rightarrow> nat \<Rightarrow> int \<Rightarrow> bool" where
  "paid_course_exists db student_pk lesson_start =
     (filter (\<lambda>c. base_course.code (base_course c) \<noteq> ''NATIVE-DEMO'')
        (filter (\<lambda>c. base_course.code (base_course c) \<noteq> ''DEMO'')
           (filter (\<lambda>c. \<not> created c < lesson_start)
              (filter (\<lambda>c. student c = student_pk) (StudentCourse_objects db)))) \<noteq> [])"

fun paid_after_demo_loop :: "database \<Rightarrow> single_teacher_lesson list \<Rightarrow> int \<Rightarrow> int" where
  "paid_after_demo_loop db [] students_pay = students_pay"
| "paid_after_demo_loop db (lesson # demo_lessons) students_pay =
     (if paid_course_exists db (student (course lesson)) (start lesson)
      then paid_after_demo_loop db demo_lessons (students_pay + 1)
      else paid_after_demo_loop db demo_lessons students_pay)"

text \<open>The body of \<open>paid_after_demo\<close>, which the decorator runs when the cache has no
  number to return.\<close>

definition paid_after_demo_body :: "database \<Rightarrow> teacher \<Rightarrow> int" where
  "paid_after_demo_body db self =
     paid_after_demo_loop db (finished_demo_lessons_queryset db self) 0"

definition paid_after_demo :: "database \<Rightarrow> cache \<Rightarrow> nat \<Rightarrow> teacher \<Rightarrow> int \<times> cache" where
  "paid_after_demo db c now self =
     cached (''PAID_AFTER_DEMO__'' @ str_nat (teacher.pk self)) (days2sec 1) c now
       (paid_after_demo_body db self)"

text \<open>\<open>Teacher.conversion\<close>. It reads \<open>finished_demo_lessons\<close> first and
  \<open>paid_after_demo\<close> only past the guard; the float \<open>1.0\<close> is the rational 1.\<close>

definition conversion :: "database \<Rightarrow> cache \<Rightarrow> nat \<Rightarrow> teacher \<Rightarrow> (error + rat) \<times> cache" where
  "conversion db c now self =
     (let (students_demo, c1) = finished_demo_lessons db c now self
      in if students_demo < DEMOS_MIN then (Inr 1, c1)
         else let (paid, c2) = paid_after_demo db c1 now self
              in case truediv paid students_demo of
                   Inl e \<Rightarrow> (Inl e, c2)
                 | Inr q \<Rightarrow> (Inr (py_round q 2), c2))"

text \<open>
  The count the spec describes for \<open>paid_after_demo\<close>, written from its words: the
  distinct students with a finished demo lesson with this teacher who have a course that
  is not a demo course and was not created before that lesson started.
\<close>

definition students_who_paid_after_demo :: "database \<Rightarrow> teacher \<Rightarrow> nat list" where
  "students_who_paid_after_demo db self =
     remdups
       (map (\<lambda>l. student (course l))
          (filter (\<lambda>l. paid_course_exists db (student (course l)) (start l))
             (finished_demo_lessons_queryset db self)))"

subsection \<open>The language for a student\<close>

text \<open>
  \<open>Teacher.language_for_student\<close>. \<open>lesson_languages\<close> is the set \<open>languages\<close> of
  the source, the machine names of the languages of the lessons this student had with the
  teacher; \<open>teacher_languages\<close> the machine names of the teacher's own languages.
  \<open>intersection.pop()\<close> returns an arbitrary member of the set and raises \<open>KeyError\<close>
  on the empty set, which the source catches: the method is the relation between its
  arguments and the values it can return.
\<close>

definition lesson_languages :: "database \<Rightarrow> teacher \<Rightarrow> nat \<Rightarrow> string set" where
  "lesson_languages db self student_pk =
     set (map (\<lambda>l. machine_name (base_course.language (base_course (course l))))
            (filter (\<lambda>l. student (course l) = student_pk
                          \<and> single_teacher_lesson.teacher_id l = teacher.pk self)
               (SingleTeacherLesson_objects db)))"

definition teacher_languages :: "teacher \<Rightarrow> string set" where
  "teacher_languages self =
     set (map machine_name (additional_languages self) @ [machine_name (teacher.language self)])"

inductive language_for_student :: "database \<Rightarrow> teacher \<Rightarrow> nat \<Rightarrow> string \<Rightarrow> bool" where
  pop:
    "m \<in> lesson_languages db self student_pk \<inter> teacher_languages self \<Longrightarrow>
     language_for_student db self student_pk m"
| KeyError:
    "lesson_languages db self student_pk \<inter> teacher_languages self = {} \<Longrightarrow>
     language_for_student db self student_pk (machine_name (teacher.language self))"

subsection \<open>Blocking a teacher\<close>

text \<open>
  \<open>set_unusable_password\<close> of the account stores the marker \<open>!\<close> followed by a fresh
  random string; a password is usable unless it starts with the marker. The random
  string is an argument of the model.
\<close>

definition set_unusable_password :: "user_account \<Rightarrow> string \<Rightarrow> user_account" where
  "set_unusable_password u random_string = u\<lparr>password := ''!'' @ random_string\<rparr>"

definition has_usable_password :: "user_account \<Rightarrow> bool" where
  "has_usable_password u = (take 1 (password u) \<noteq> ''!'')"

text \<open>
  \<open>Teacher.block\<close>: both availability tables are updated for the rows of this teacher,
  the linked account is read, changed and saved under its key, and the signal
  \<open>teacher_blocked\<close> is sent. Reading \<open>self.user\<close> raises \<open>DoesNotExist\<close> when no row
  has the key.
\<close>

definition block :: "database \<Rightarrow> teacher \<Rightarrow> string \<Rightarrow> error + database" where
  "block db self random_string =
     (let db1 = db\<lparr>FreeTimeTemplate_objects :=
                   map (\<lambda>r. if free_time_template.teacher_id r = teacher.pk self
                             then r\<lparr>free_time_template.available := False\<rparr> else r)
                     (FreeTimeTemplate_objects db)\<rparr>;
          db2 = db1\<lparr>FreeTime_objects :=
                   map (\<lambda>r. if free_time.teacher_id r = teacher.pk self
                             then r\<lparr>free_time.available := False\<rparr> else r)
                     (FreeTime_objects db1)\<rparr>
      in case find (\<lambda>u. user_account.pk u = user self) (User_objects db2) of
           None \<Rightarrow> Inl DoesNotExist
         | Some u \<Rightarrow>
             let u1 = set_unusable_password (u\<lparr>is_active := False\<rparr>) random_string;
                 db3 = db2\<lparr>User_objects :=
                         map (\<lambda>row. if user_account.pk row = user_account.pk u1 then u1 else row)
                           (User_objects db2)\<rparr>
             in Inr (db3\<lparr>signals_sent := signals_sent db3 @ [teacher_blocked (teacher.pk self)]\<rparr>))"

subsection \<open>Basic materials\<close>

text \<open>
  What \<open>get_basic_materials\<close> reads from outside the module: the setting \<open>BASE_DIR\<close>,
  the file system (a path is absent, a file, or a directory with its entries in the order
  \<open>os.listdir\<close> returns them), \<open>get_full_url\<close> of \<open>portal.utils\<close> and
  \<open>signing.dumps\<close>. The name of an entry is whatever the disk holds, a sequence of code
  points; so are the URL and the signature.
\<close>

datatype fs_entry = File | Dir "ustring list"

record environment =
  BASE_DIR :: string
  file_system :: "string \<rightharpoonup> fs_entry"
  get_full_url :: "string \<Rightarrow> ustring list \<Rightarrow> ustring"
  signing_dumps :: "nat \<Rightarrow> ustring \<Rightarrow> string \<Rightarrow> ustring"

record material =
  code :: string
  name :: ustring
  url :: ustring

text \<open>The code points of an ASCII literal of the source.\<close>

definition code_points :: "string \<Rightarrow> ustring" where
  "code_points s = map of_char s"

text \<open>\<open>str.upper\<close> on a language code; the codes are ASCII, other characters are left
  as they are.\<close>

definition upper :: "string \<Rightarrow> string" where
  "upper s =
     map (\<lambda>c. if 97 \<le> (of_char c :: nat) \<and> (of_char c :: nat) \<le> 122
               then char_of ((of_char c :: nat) - 32) else c) s"

text \<open>\<open>os.path.join\<close> of two components and \<open>os.path.basename\<close>, on POSIX paths.\<close>

definition path_join :: "string \<Rightarrow> string \<Rightarrow> string" where
  "path_join a b =
     (if take 1 b = ''/'' then b
      else if a = [] \<or> last a = CHR ''/'' then a @ b
      else a @ ''/'' @ b)"

definition basename :: "string \<Rightarrow> string" where
  "basename p = rev (takeWhile (\<lambda>c. c \<noteq> CHR ''/'') (rev p))"

text \<open>
  \<open>\d\<close> in a \<open>str\<close> pattern matches every Unicode decimal digit (category Nd), not
  only \<open>0\<close> to \<open>9\<close>. The decimal digits come in runs of ten, zero first;
  \<open>decimal_zeros\<close> lists the zero of every run of Unicode 14.0.
\<close>

definition decimal_zeros :: "nat list" where
  "decimal_zeros =
     [48, 1632, 1776, 1984, 2406, 2534, 2662, 2790, 2918, 3046, 3174, 3302, 3430, 3558,
      3664, 3792, 3872, 4160, 4240, 6112, 6160, 6470, 6608, 6784, 6800, 6992, 7088, 7232,
      7248, 42528, 43216, 43264, 43472, 43504, 43600, 44016, 65296, 66720, 68912, 69734,
      69872, 69942, 70096, 70384, 70736, 70864, 71248, 71360, 71472, 71904, 72016, 72784,
      73040, 73120, 92768, 92864, 93008, 120782, 120792, 120802, 120812, 120822, 123200,
      123632, 125264, 130032]"

definition is_digit :: "nat \<Rightarrow> bool" where
  "is_digit c = list_ex (\<lambda>z. z \<le> c \<and> c < z + 10) decimal_zeros"

text \<open>
  \<open>re.match(r'module\d+(_theory|)\.pdf', f)\<close>: the name starts with \<open>module\<close>, one
  or more digits, and then \<open>_theory.pdf\<close> or \<open>.pdf\<close>. All the digits that follow
  \<open>module\<close> belong to the number, since neither continuation starts with a digit.
\<close>

definition starts_with :: "'a list \<Rightarrow> 'a list \<Rightarrow> bool" where
  "starts_with s p = (take (length p) s = p)"

definition module_pdf_match :: "ustring \<Rightarrow> bool" where
  "module_pdf_match f =
     (starts_with f (code_points ''module'')
      \<and> takeWhile is_digit (drop 6 f) \<noteq> []
      \<and> (starts_with (dropWhile is_digit (drop 6 f)) (code_points ''_theory.pdf'')
         \<or> starts_with (dropWhile is_digit (drop 6 f)) (code_points ''.pdf'')))"

text \<open>The two template codes of each language code, in the order the codes are
  iterated.\<close>

definition basic_codes :: "string list \<Rightarrow> string list" where
  "basic_codes cs = concat (map (\<lambda>c. [upper c @ ''-BASIC-S'', upper c @ ''-BASIC-N'']) cs)"

text \<open>The loop over the codes, with \<open>result\<close> as it grows. \<open>os.listdir\<close> on a path that
  is a file raises \<open>NotADirectoryError\<close>.\<close>

fun basic_materials_loop ::
  "environment \<Rightarrow> teacher \<Rightarrow> string list \<Rightarrow> material list \<Rightarrow> error + material list" where
  "basic_materials_loop env self [] result = Inr result"
| "basic_materials_loop env self (c # codes) result =
     (let path = path_join (path_join (BASE_DIR env) ''materials/courses/templates/ru'') c
      in case file_system env path of
           None \<Rightarrow> basic_materials_loop env self codes result
         | Some File \<Rightarrow> Inl NotADirectoryError
         | Some (Dir entries) \<Rightarrow>
             basic_materials_loop env self codes
               (result @
                map (\<lambda>f. \<lparr>material.code = c, name = f,
                         url = get_full_url env ''teacher_material_template''
                                 [code_points ''ru'', code_points c, f]
                               @ code_points ''?sign='' @ signing_dumps env (user self) f c\<rparr>)
                  (filter module_pdf_match entries)))"

text \<open>
  \<open>Teacher.get_basic_materials\<close>. \<open>all_languages_codes\<close> is a Python set, iterated in
  an order the source does not fix: the method relates the teacher to the result for
  every order of the codes.
\<close>

inductive get_basic_materials :: "environment \<Rightarrow> teacher \<Rightarrow> error + material list \<Rightarrow> bool" where
  not_russian:
    "\<not> teacher.russian self \<Longrightarrow> get_basic_materials env self (Inr [])"
| russian:
    "teacher.russian self \<Longrightarrow> distinct cs \<Longrightarrow> set cs = all_languages_codes self \<Longrightarrow>
     get_basic_materials env self (basic_materials_loop env self (basic_codes cs) [])"

subsection \<open>Teacher materials\<close>

text \<open>
  A \<open>TeacherMaterial\<close> row; \<open>attachment\<close> is the stored name of the file, empty when no
  file is associated. \<open>materials_fs\<close> of \<open>portal.utils\<close> is outside the module: opening
  a name in the storage gives the name of the opened file or raises. Reading
  \<open>attachment.file\<close> raises \<open>ValueError\<close> when no file is associated and opens the name
  in the storage otherwise.
\<close>

record teacher_material =
  language :: language
  attachment :: string
  russian :: bool
  native :: bool

definition attachment_file :: "(string \<Rightarrow> error + string) \<Rightarrow> teacher_material \<Rightarrow> error + string" where
  "attachment_file materials_fs self =
     (if attachment self = [] then Inl ValueError else materials_fs (attachment self))"

definition file_not_found_placeholder :: string where
  "file_not_found_placeholder = ''-- file not found --''"

definition material_name :: "(string \<Rightarrow> error + string) \<Rightarrow> teacher_material \<Rightarrow> error + string" where
  "material_name materials_fs self =
     (case attachment_file materials_fs self of
        Inr file_name \<Rightarrow> Inr (basename file_name)
      | Inl FileNotFoundError \<Rightarrow> Inr file_not_found_placeholder
      | Inl e \<Rightarrow> Inl e)"

subsection \<open>Onboarding\<close>

text \<open>
  \<open>Teacher.generate_position\<close>. \<open>in_case\<close> is the inflection of \<open>Morpher\<close>
  (\<open>language.models\<close>, outside the module): it renders the name of a language in a
  grammatical case, here \<open>gent\<close>. The queryset is the rows of the language table whose
  code is among the teacher's codes, in the order of the table.
\<close>

definition generate_position ::
  "(language \<Rightarrow> string \<Rightarrow> ustring) \<Rightarrow> database \<Rightarrow> teacher \<Rightarrow> ustring" where
  "generate_position in_case db self =
     (let languages =
            join comma_space
              (map (\<lambda>l. in_case l ''gent'')
                 (filter (\<lambda>l. language.code l \<in> all_languages_codes self) (Language_objects db)))
      in position_head @ languages @ position_noun
         @ (if str_in comma_space languages then suffix_plural else suffix_singular)
         @ (if teacher.native self then native_suffix else []))"

text \<open>
  \<open>date + relativedelta(months=1)\<close>: the next month, in the next year after December,
  with the day cut to the length of that month; a year past 9999 is a \<open>ValueError\<close>.
\<close>

definition is_leap :: "int \<Rightarrow> bool" where
  "is_leap y = (y mod 4 = 0 \<and> (y mod 100 \<noteq> 0 \<or> y mod 400 = 0))"

definition days_in_month :: "int \<Rightarrow> int \<Rightarrow> int" where
  "days_in_month y m =
     (if m = 2 then (if is_leap y then 29 else 28)
      else if m = 4 \<or> m = 6 \<or> m = 9 \<or> m = 11 then 30 else 31)"

definition plus_one_month :: "date \<Rightarrow> error + date" where
  "plus_one_month dt =
     (let y = (if month dt + 1 > 12 then year dt + 1 else year dt);
          m = (if month dt + 1 > 12 then month dt + 1 - 12 else month dt + 1);
          d = min (days_in_month y m) (day dt)
      in if y > 9999 then Inl ValueError else Inr \<lparr>year = y, month = m, day = d\<rparr>)"

text \<open>
  Modelled from the spec: \<open>UserTest.objects.create_test\<close> of \<open>user_tests.models\<close> is
  outside the module; the spec has it assign a test with a due date to a user: it adds a
  row.
\<close>

definition create_test :: "database \<Rightarrow> nat \<Rightarrow> string \<Rightarrow> date \<Rightarrow> database" where
  "create_test db user_pk test_asset due =
     db\<lparr>UserTest_objects :=
          UserTest_objects db
          @ [\<lparr>user_test.user_id = user_pk, asset = test_asset, due_date = due\<rparr>]\<rparr>"

text \<open>\<open>Teacher._assign_tests\<close>; \<open>today\<close> is \<open>now().date()\<close>.\<close>

definition assign_tests :: "database \<Rightarrow> date \<Rightarrow> teacher \<Rightarrow> error + database" where
  "assign_tests db today teacher =
     (case plus_one_month today of
        Inl e \<Rightarrow> Inl e
      | Inr due \<Rightarrow>
          Inr (create_test (create_test db (user teacher) ''webinar1'' due)
                 (user teacher) ''webinar2'' due))"

text \<open>
  The keyword arguments of \<open>Teacher.create\<close>: the fields of the new row, the keys of the
  additional languages (absent, \<open>None\<close> and the empty list are the same to the source),
  and \<open>__send_greeting_email\<close>, true when it is left out.
\<close>

record create_kwargs =
  kw_language :: language
  kw_russian :: bool
  kw_native :: bool
  kw_language_support :: bool
  kw_additional_languages :: "nat list option"
  kw_send_greeting_email :: bool

text \<open>\<open>teacher.save()\<close> writes the row with the teacher's key; a new row gets the next
  key.\<close>

definition save_teacher :: "database \<Rightarrow> teacher \<Rightarrow> database" where
  "save_teacher db t =
     db\<lparr>Teacher_objects :=
          map (\<lambda>row. if teacher.pk row = teacher.pk t then t else row) (Teacher_objects db)\<rparr>"

definition next_teacher_pk :: "database \<Rightarrow> nat" where
  "next_teacher_pk db = Suc (fold max (map teacher.pk (Teacher_objects db)) 0)"

text \<open>
  The loop \<open>teacher.additional_languages.add(lang_pk)\<close>: a key with no language row
  violates the foreign key; a language that is already attached is not attached twice.
\<close>

fun add_languages :: "database \<Rightarrow> teacher \<Rightarrow> nat list \<Rightarrow> error + teacher \<times> database" where
  "add_languages db teacher [] = Inr (teacher, db)"
| "add_languages db teacher (lang_pk # language_pks) =
     (case find (\<lambda>l. language.pk l = lang_pk) (Language_objects db) of
        None \<Rightarrow> Inl IntegrityError
      | Some l \<Rightarrow>
          let teacher1 =
                (if lang_pk \<in> set (map language.pk (teacher.additional_languages teacher))
                 then teacher
                 else teacher\<lparr>teacher.additional_languages :=
                                 teacher.additional_languages teacher @ [l]\<rparr>)
          in add_languages (save_teacher db teacher1) teacher1 language_pks)"

definition helpdesk_support :: string where
  "helpdesk_support = ''Helpdesk support''"

definition greeting_subject :: string where
  "greeting_subject = ''Access to teacher'' @ [CHR 0x27] @ ''s dashboard''"

definition greeting_template :: string where
  "greeting_template = ''manager/create_teacher_email.html''"

text \<open>
  \<open>Teacher.create\<close>. The row is created (the one-to-one link refuses a second teacher
  for the account), the position is generated and saved, the additional languages are
  attached, the salary profile is created (\<open>expenses.models\<close> is outside the module; the
  spec has the profile keyed one-to-one with the account, so a second one for the same
  account is refused), the account joins the group
  \<open>Helpdesk support\<close>, which \<open>get_or_create\<close> creates when it is missing, the tests are
  assigned to a teacher on the russian market, and the greeting is handed to
  \<open>send_html_mail\<close> with the context of the template. The result is the teacher and the
  new database.
\<close>

definition create ::
  "(language \<Rightarrow> string \<Rightarrow> ustring) \<Rightarrow> database \<Rightarrow> date \<Rightarrow> user_account \<Rightarrow> string
     \<Rightarrow> create_kwargs \<Rightarrow> error + teacher \<times> database" where
  "create in_case db today account account_password kwargs =
     (let send_greeting_email = kw_send_greeting_email kwargs;
          language_pks =
            (case kw_additional_languages kwargs of None \<Rightarrow> [] | Some pks \<Rightarrow> pks)
      in if list_ex (\<lambda>t. user t = user_account.pk account) (Teacher_objects db)
         then Inl IntegrityError
         else
           let teacher0 =
                 \<lparr>teacher.pk = next_teacher_pk db, user = user_account.pk account,
                  position = None, teacher.language = kw_language kwargs,
                  additional_languages = [], teacher.russian = kw_russian kwargs,
                  teacher.native = kw_native kwargs,
                  language_support = kw_language_support kwargs\<rparr>;
               db1 = db\<lparr>Teacher_objects := Teacher_objects db @ [teacher0]\<rparr>;
               teacher1 = teacher0\<lparr>position := Some (generate_position in_case db1 teacher0)\<rparr>;
               db2 = save_teacher db1 teacher1
           in case add_languages db2 teacher1 language_pks of
                Inl e \<Rightarrow> Inl e
              | Inr (teacher2, db3) \<Rightarrow>
                  if list_ex (\<lambda>p. salary_profile.user_id p = user_account.pk account)
                       (SalaryProfile_objects db3)
                  then Inl IntegrityError
                  else
                    let db4 = db3\<lparr>SalaryProfile_objects :=
                                  SalaryProfile_objects db3
                                  @ [\<lparr>salary_profile.user_id = user_account.pk account\<rparr>]\<rparr>;
                        db5 = (if helpdesk_support \<in> set (Group_objects db4) then db4
                               else db4\<lparr>Group_objects := Group_objects db4 @ [helpdesk_support]\<rparr>);
                        db6 = (if (user_account.pk account, helpdesk_support) \<in> set (user_groups db5)
                               then db5
                               else db5\<lparr>user_groups :=
                                         user_groups db5
                                         @ [(user_account.pk account, helpdesk_support)]\<rparr>)
                    in case (if teacher.russian teacher2 then assign_tests db6 today teacher2
                             else Inr db6) of
                         Inl e \<Rightarrow> Inl e
                       | Inr db7 \<Rightarrow>
                           Inr (teacher2,
                                if send_greeting_email
                                then db7\<lparr>outbox :=
                                          outbox db7
                                          @ [\<lparr>recipient = user teacher2, subject = greeting_subject,
                                              template = greeting_template,
                                              ctx_name = first_name account,
                                              ctx_password = account_password,
                                              ctx_teacher = teacher.pk teacher2,
                                              ctx_native = teacher.native teacher2\<rparr>]\<rparr>
                                else db7))"

text \<open>A read of the cache under \<open>key\<close> at \<open>now\<close> finds nothing to return.\<close>

definition cache_miss :: "cache \<Rightarrow> string \<Rightarrow> nat \<Rightarrow> bool" where
  "cache_miss c key now =
     (case c key of None \<Rightarrow> True | Some (stored, expires) \<Rightarrow> \<not> now < expires)"

subsection \<open>Example data\<close>

text \<open>A teacher of English with key 1, demo and paid courses, and finished demo lessons
  of that teacher.\<close>

definition english :: language where
  "english = \<lparr>language.pk = 1, language.code = ''en'', machine_name = ''english''\<rparr>"

definition example_teacher :: teacher where
  "example_teacher =
     \<lparr>teacher.pk = 1, user = 1, position = None, teacher.language = english,
      additional_languages = [], teacher.russian = False, teacher.native = False,
      language_support = False\<rparr>"

definition demo_course :: "nat \<Rightarrow> student_course" where
  "demo_course s =
     \<lparr>student_course.pk = s, student = s,
      base_course = \<lparr>base_course.code = ''DEMO'', base_course.language = english\<rparr>,
      created = 0\<rparr>"

definition paid_course :: "nat \<Rightarrow> nat \<Rightarrow> int \<Rightarrow> student_course" where
  "paid_course k s t =
     \<lparr>student_course.pk = k, student = s,
      base_course = \<lparr>base_course.code = ''EN-A1'', base_course.language = english\<rparr>,
      created = t\<rparr>"

definition demo_lesson :: "nat \<Rightarrow> nat \<Rightarrow> int \<Rightarrow> single_teacher_lesson" where
  "demo_lesson k s t =
     \<lparr>single_teacher_lesson.pk = k, single_teacher_lesson.teacher_id = 1,
      course = demo_course s, finished = True, start = t\<rparr>"

text \<open>Ten students with one finished demo lesson each; three of them bought a course
  afterwards.\<close>

definition ten_demos_db :: database where
  "ten_demos_db =
     empty_database
       \<lparr>SingleTeacherLesson_objects :=
          map (\<lambda>k. demo_lesson k k 10) [1, 2, 3, 4, 5, 6, 7, 8, 9, 10],
        StudentCourse_objects :=
          map demo_course [1, 2, 3, 4, 5, 6, 7, 8, 9, 10]
          @ map (\<lambda>k. paid_course (10 + k) k 20) [1, 2, 3]\<rparr>"

text \<open>One student with two finished demo lessons, who bought one course after both.\<close>

definition two_demos_db :: database where
  "two_demos_db =
     empty_database
       \<lparr>SingleTeacherLesson_objects := [demo_lesson 1 7 10, demo_lesson 2 7 20],
        StudentCourse_objects := [demo_course 7, paid_course 100 7 30]\<rparr>"

text \<open>A teacher of English and German, and a student with one German lesson with that
  teacher.\<close>

definition german :: language where
  "german = \<lparr>language.pk = 2, language.code = ''de'', machine_name = ''german''\<rparr>"

definition bilingual_teacher :: teacher where
  "bilingual_teacher = example_teacher\<lparr>additional_languages := [german]\<rparr>"

definition german_lessons_db :: database where
  "german_lessons_db =
     empty_database
       \<lparr>SingleTeacherLesson_objects :=
          [\<lparr>single_teacher_lesson.pk = 1, single_teacher_lesson.teacher_id = 1,
            course =
              \<lparr>student_course.pk = 1, student = 5,
               base_course = \<lparr>base_course.code = ''DE-A1'', base_course.language = german\<rparr>,
               created = 0\<rparr>,
            finished = False, start = 10\<rparr>]\<rparr>"

text \<open>Availability rows of two teachers and the account of the first; and the same
  database after the first teacher is blocked with the random string \<open>abc\<close>.\<close>

definition availability_db :: database where
  "availability_db =
     empty_database
       \<lparr>FreeTimeTemplate_objects :=
          [\<lparr>free_time_template.pk = 1, free_time_template.teacher_id = 1,
            free_time_template.available = True\<rparr>,
           \<lparr>free_time_template.pk = 2, free_time_template.teacher_id = 2,
            free_time_template.available = True\<rparr>],
        FreeTime_objects :=
          [\<lparr>free_time.pk = 1, free_time.teacher_id = 1, free_time.available = True\<rparr>],
        User_objects :=
          [\<lparr>user_account.pk = 1, first_name = [65, 110, 110, 97], is_active = True,
            password = ''pbkdf2_sha256$hash''\<rparr>]\<rparr>"

definition blocked_once_db :: database where
  "blocked_once_db =
     empty_database
       \<lparr>FreeTimeTemplate_objects :=
          [\<lparr>free_time_template.pk = 1, free_time_template.teacher_id = 1,
            free_time_template.available = False\<rparr>,
           \<lparr>free_time_template.pk = 2, free_time_template.teacher_id = 2,
            free_time_template.available = True\<rparr>],
        FreeTime_objects :=
          [\<lparr>free_time.pk = 1, free_time.teacher_id = 1, free_time.available = False\<rparr>],
        User_objects :=
          [\<lparr>user_account.pk = 1, first_name = [65, 110, 110, 97], is_active = False,
            password = ''!abc''\<rparr>],
        signals_sent := [teacher_blocked 1]\<rparr>"

text \<open>An environment whose disk holds the English standard templates, a teacher on the
  russian market, and a storage with one readable file and one it refuses to open.\<close>

definition example_env :: environment where
  "example_env =
     \<lparr>BASE_DIR = ''/srv/app'',
      file_system =
        [''/srv/app/materials/courses/templates/ru/EN-BASIC-S'' \<mapsto>
           Dir [code_points ''module1.pdf'', code_points ''notes.txt'',
                code_points ''module12_theory.pdf'', code_points ''module.pdf'',
                code_points ''module'' @ [1633] @ code_points ''.pdf'']],
      get_full_url =
        (\<lambda>view args. code_points ''https://school.example/'' @ code_points view
           @ concat (map ((@) [47]) args)),
      signing_dumps = (\<lambda>user_pk f c. code_points ''signed-'' @ code_points c @ [45] @ f)\<rparr>"

definition russian_teacher :: teacher where
  "russian_teacher = example_teacher\<lparr>teacher.russian := True\<rparr>"

definition example_storage :: "string \<Rightarrow> error + string" where
  "example_storage stored_name =
     (if stored_name = ''teachers/book.pdf'' then Inr ''/var/materials/teachers/book.pdf''
      else if stored_name = ''teachers/secret.pdf'' then Inl PermissionError
      else Inl FileNotFoundError)"

definition example_material :: "string \<Rightarrow> teacher_material" where
  "example_material stored_name =
     \<lparr>teacher_material.language = english, attachment = stored_name,
      teacher_material.russian = False, teacher_material.native = False\<rparr>"

text \<open>A language table, an account without a teacher, the keyword arguments of an
  onboarding on the russian market, a day at the end of January, and an inflection that
  knows the genitive of the two languages.\<close>

definition catalogue_db :: database where
  "catalogue_db = empty_database\<lparr>Language_objects := [english, german]\<rparr>"

definition example_account :: user_account where
  "example_account =
     \<lparr>user_account.pk = 1, first_name = [65, 110, 110, 97], is_active = True,
      password = ''pbkdf2_sha256$hash''\<rparr>"

definition example_kwargs :: create_kwargs where
  "example_kwargs =
     \<lparr>kw_language = english, kw_russian = True, kw_native = False,
      kw_language_support = False, kw_additional_languages = None,
      kw_send_greeting_email = True\<rparr>"

definition end_of_january :: date where
  "end_of_january = \<lparr>year = 2024, month = 1, day = 31\<rparr>"

definition example_in_case :: "language \<Rightarrow> string \<Rightarrow> ustring" where
  \<comment> \<open>\<open>angliyskogo\<close> and \<open>nemetskogo\<close> in Cyrillic\<close>
  "example_in_case l grammatical_case =
     (if language.code l = ''en''
      then [1072, 1085, 1075, 1083, 1080, 1081, 1089, 1082, 1086, 1075, 1086]
      else [1085, 1077, 1084, 1077, 1094, 1082, 1086, 1075, 1086])"

text \<open>The same onboarding with German, the language with key 2, as an additional
  language.\<close>

definition two_languages_kwargs :: create_kwargs where
  "two_languages_kwargs = example_kwargs\<lparr>kw_additional_languages := Some [2]\<rparr>"

section \<open>Properties\<close>

text \<open>
  C5. For every teacher, \<open>all_languages_codes\<close> is the union of the primary language's
  code and the codes of the additional languages; it contains the primary language's code
  and so is never empty.
\<close>

theorem all_languages_codes_union:
  "all_languages_codes t
     = insert (language.code (teacher.language t)) (language.code ` set (additional_languages t))
   \<and> language.code (teacher.language t) \<in> all_languages_codes t
   \<and> all_languages_codes t \<noteq> {}"
  by (auto simp: all_languages_codes_def)

subsection \<open>Conversion\<close>

lemmas example_defs = ten_demos_db_def two_demos_db_def empty_database_def demo_lesson_def
  demo_course_def paid_course_def example_teacher_def english_def

lemma paid_after_demo_loop_count:
  "paid_after_demo_loop db ls acc =
     acc + int (length (filter (\<lambda>l. paid_course_exists db (student (course l)) (start l)) ls))"
  by (induction ls arbitrary: acc) simp_all

lemma small_quotient_no_overflow:
  assumes "0 < d" and "\<bar>n\<bar> < 2 ^ 63"
  shows "\<not> double_overflow n d"
proof -
  have "(2::int) ^ 63 \<le> 2 ^ 1024 - 2 ^ 970" by simp
  moreover have "(2 ^ 1024 - 2 ^ 970) * 1 \<le> (2 ^ 1024 - 2 ^ 970) * d"
    using assms(1) by (intro mult_left_mono) simp_all
  ultimately show ?thesis using assms(2) by (simp add: double_overflow_def)
qed

lemma truediv_not_zero_division: "b \<noteq> 0 \<Longrightarrow> truediv a b \<noteq> Inl ZeroDivisionError"
  by (simp add: truediv_def Let_def)

lemma truediv_small: "0 < b \<Longrightarrow> \<bar>a\<bar> < 2 ^ 63 \<Longrightarrow> truediv a b = Inr (nearest_double a b)"
  using small_quotient_no_overflow [of b a] by (simp add: truediv_def Let_def)

lemma conversion_unfold:
  "fst (conversion db c now t) =
     (if fst (finished_demo_lessons db c now t) < 10 then Inr 1
      else case truediv (fst (paid_after_demo db (snd (finished_demo_lessons db c now t)) now t))
                  (fst (finished_demo_lessons db c now t)) of
             Inl e \<Rightarrow> Inl e
           | Inr q \<Rightarrow> Inr (py_round q 2))"
  by (simp add: conversion_def DEMOS_MIN_def Let_def split: prod.splits sum.splits)

lemma round_three_tenths: "py_round (nearest_double 3 10) 2 = nearest_double 3 10"
  by code_simp

lemma three_tenths: "nearest_double 3 10 = 5404319552844595 / 2 ^ 54"
  by code_simp

text \<open>
  C1. \<open>conversion\<close> returns exactly 1.0 when the finished-demo-lesson count it reads is
  less than 10, whatever the paid-after-demo count; from 10 on it returns
  \<open>round(paid_after_demo / finished_demo_lessons, 2)\<close>. With 10 finished demo lessons
  and 3 paid after demo the result is the float 0.3, the binary64 number nearest to 3/10.
\<close>

theorem conversion_value:
  "(fst (finished_demo_lessons db c now t) < 10 \<longrightarrow> fst (conversion db c now t) = Inr 1)
   \<and> (10 \<le> fst (finished_demo_lessons db c now t) \<longrightarrow>
        fst (conversion db c now t) =
          (case truediv (fst (paid_after_demo db (snd (finished_demo_lessons db c now t)) now t))
                  (fst (finished_demo_lessons db c now t)) of
             Inl e \<Rightarrow> Inl e
           | Inr q \<Rightarrow> Inr (py_round q 2)))
   \<and> (fst (finished_demo_lessons db c now t) = 10
        \<and> fst (paid_after_demo db (snd (finished_demo_lessons db c now t)) now t) = 3 \<longrightarrow>
        fst (conversion db c now t) = Inr (nearest_double 3 10))"
proof (intro conjI impI)
  assume "fst (finished_demo_lessons db c now t) < 10"
  then show "fst (conversion db c now t) = Inr 1"
    by (simp add: conversion_unfold)
next
  assume "10 \<le> fst (finished_demo_lessons db c now t)"
  then show "fst (conversion db c now t) =
          (case truediv (fst (paid_after_demo db (snd (finished_demo_lessons db c now t)) now t))
                  (fst (finished_demo_lessons db c now t)) of
             Inl e \<Rightarrow> Inl e
           | Inr q \<Rightarrow> Inr (py_round q 2))"
    by (simp add: conversion_unfold)
next
  assume "fst (finished_demo_lessons db c now t) = 10
        \<and> fst (paid_after_demo db (snd (finished_demo_lessons db c now t)) now t) = 3"
  moreover have "truediv 3 10 = Inr (nearest_double 3 10)"
    by (rule truediv_small) simp_all
  ultimately show "fst (conversion db c now t) = Inr (nearest_double 3 10)"
    by (simp add: conversion_unfold round_three_tenths)
qed

lemma ten_demos_queryset:
  "finished_demo_lessons_queryset ten_demos_db example_teacher
     = SingleTeacherLesson_objects ten_demos_db"
  by (simp add: finished_demo_lessons_queryset_def example_defs)

lemma ten_demos_finished:
  "fst (finished_demo_lessons ten_demos_db Map.empty 0 example_teacher) = 10"
  by (simp add: finished_demo_lessons_def cached_def ten_demos_queryset) (simp add: example_defs)

lemma ten_demos_paid:
  "fst (paid_after_demo ten_demos_db
          (snd (finished_demo_lessons ten_demos_db Map.empty 0 example_teacher)) 0 example_teacher) = 3"
  by (simp add: finished_demo_lessons_def paid_after_demo_def cached_def paid_after_demo_body_def
        ten_demos_queryset)
     (simp add: example_defs paid_course_exists_def)

lemma no_demos_finished:
  "fst (finished_demo_lessons empty_database Map.empty 0 example_teacher) = 0"
  by (simp add: finished_demo_lessons_def cached_def finished_demo_lessons_queryset_def
        empty_database_def)

theorem conversion_value_witness:
  "fst (finished_demo_lessons empty_database Map.empty 0 example_teacher) < 10
   \<and> fst (conversion empty_database Map.empty 0 example_teacher) = Inr 1
   \<and> fst (finished_demo_lessons ten_demos_db Map.empty 0 example_teacher) = 10
   \<and> fst (paid_after_demo ten_demos_db
             (snd (finished_demo_lessons ten_demos_db Map.empty 0 example_teacher)) 0
             example_teacher) = 3
   \<and> fst (conversion ten_demos_db Map.empty 0 example_teacher) = Inr (5404319552844595 / 2 ^ 54)"
proof -
  have small: "fst (conversion empty_database Map.empty 0 example_teacher) = Inr 1"
    using conversion_value [of empty_database Map.empty 0 example_teacher]
    by (simp add: no_demos_finished)
  have "fst (conversion ten_demos_db Map.empty 0 example_teacher) = Inr (nearest_double 3 10)"
    using conversion_value [of ten_demos_db Map.empty 0 example_teacher]
      ten_demos_finished ten_demos_paid
    by blast
  then have large: "fst (conversion ten_demos_db Map.empty 0 example_teacher)
      = Inr (5404319552844595 / 2 ^ 54)"
    by (simp only: three_tenths)
  show ?thesis
    using small large no_demos_finished ten_demos_finished ten_demos_paid by simp
qed

lemma cached_value_bounded:
  assumes "\<forall>k v e. c k = Some (v, e) \<longrightarrow> \<bar>v\<bar> < 2 ^ 63" and "\<bar>computed\<bar> < 2 ^ 63"
  shows "\<bar>fst (cached key timeout c now computed)\<bar> < 2 ^ 63"
  using assms by (auto simp: cached_def split: option.splits)

lemma cached_cache_bounded:
  assumes "\<forall>k v e. c k = Some (v, e) \<longrightarrow> \<bar>v\<bar> < 2 ^ 63" and "\<bar>computed\<bar> < 2 ^ 63"
  shows "\<forall>k v e. snd (cached key timeout c now computed) k = Some (v, e) \<longrightarrow> \<bar>v\<bar> < 2 ^ 63"
  using assms by (auto simp: cached_def split: option.splits if_splits)

lemma queryset_length:
  "length (finished_demo_lessons_queryset db t) \<le> length (SingleTeacherLesson_objects db)"
  by (simp add: finished_demo_lessons_queryset_def)

lemma paid_after_demo_body_bounds:
  "0 \<le> paid_after_demo_body db t
   \<and> paid_after_demo_body db t \<le> int (length (finished_demo_lessons_queryset db t))"
  by (simp add: paid_after_demo_body_def paid_after_demo_loop_count)

text \<open>
  C10. The division in \<open>conversion\<close> is well defined: the quotient is taken only when
  the finished-demo-lesson count is at least 10, so \<open>conversion\<close> never divides by
  zero; and it returns a value for every teacher, whatever the cache holds, as long as
  the counts involved are counts a database can return (below \<open>2 ^ 63\<close>).
\<close>

theorem conversion_division_defined:
  "fst (conversion db c now t) \<noteq> Inl ZeroDivisionError
   \<and> (length (SingleTeacherLesson_objects db) < 2 ^ 63
        \<and> (\<forall>k v e. c k = Some (v, e) \<longrightarrow> \<bar>v\<bar> < 2 ^ 63) \<longrightarrow>
      (\<exists>x. fst (conversion db c now t) = Inr x))"
proof (intro conjI impI)
  show "fst (conversion db c now t) \<noteq> Inl ZeroDivisionError"
  proof (cases "fst (finished_demo_lessons db c now t) < 10")
    case True
    then show ?thesis by (simp add: conversion_unfold)
  next
    case False
    then have "fst (finished_demo_lessons db c now t) \<noteq> 0" by simp
    from truediv_not_zero_division [OF this] False show ?thesis
      by (auto simp: conversion_unfold split: sum.splits)
  qed
next
  assume sane: "length (SingleTeacherLesson_objects db) < 2 ^ 63
        \<and> (\<forall>k v e. c k = Some (v, e) \<longrightarrow> \<bar>v\<bar> < 2 ^ 63)"
  let ?n = "int (length (finished_demo_lessons_queryset db t))"
  have rows: "int (length (SingleTeacherLesson_objects db)) < 2 ^ 63"
    using sane by (metis of_nat_less_iff of_nat_numeral of_nat_power)
  have n: "\<bar>?n\<bar> < 2 ^ 63"
    using queryset_length [of db t] rows by simp
  have body: "\<bar>paid_after_demo_body db t\<bar> < 2 ^ 63"
    using paid_after_demo_body_bounds [of db t] n by simp
  have c1: "\<forall>k v e. snd (finished_demo_lessons db c now t) k = Some (v, e) \<longrightarrow> \<bar>v\<bar> < 2 ^ 63"
    unfolding finished_demo_lessons_def using sane n by (intro cached_cache_bounded) simp_all
  have paid: "\<bar>fst (paid_after_demo db (snd (finished_demo_lessons db c now t)) now t)\<bar> < 2 ^ 63"
    unfolding paid_after_demo_def using c1 body by (intro cached_value_bounded) simp_all
  show "\<exists>x. fst (conversion db c now t) = Inr x"
  proof (cases "fst (finished_demo_lessons db c now t) < 10")
    case True
    then show ?thesis by (simp add: conversion_unfold)
  next
    case False
    then have "0 < fst (finished_demo_lessons db c now t)" by simp
    from truediv_small [OF this paid] False show ?thesis
      by (simp add: conversion_unfold)
  qed
qed

theorem conversion_division_defined_witness:
  "length (SingleTeacherLesson_objects ten_demos_db) < 2 ^ 63
   \<and> fst (conversion ten_demos_db Map.empty 0 example_teacher) \<noteq> Inl ZeroDivisionError
   \<and> (\<exists>x. fst (conversion ten_demos_db Map.empty 0 example_teacher) = Inr x)"
proof -
  have rows: "length (SingleTeacherLesson_objects ten_demos_db) < 2 ^ 63"
    by (simp add: example_defs)
  with conversion_division_defined [of ten_demos_db Map.empty 0 example_teacher]
  show ?thesis by simp
qed

subsection \<open>Paid after demo\<close>

lemma cached_miss: "cache_miss c key now \<Longrightarrow> fst (cached key timeout c now computed) = computed"
  by (auto simp: cache_miss_def cached_def split: option.splits)

lemma distinct_students_count:
  assumes "distinct (map (\<lambda>l. student (course l)) (finished_demo_lessons_queryset db t))"
  shows "length (students_who_paid_after_demo db t)
     = length (filter (\<lambda>l. paid_course_exists db (student (course l)) (start l))
         (finished_demo_lessons_queryset db t))"
proof -
  have "distinct (map (\<lambda>l. student (course l))
          (filter (\<lambda>l. paid_course_exists db (student (course l)) (start l))
             (finished_demo_lessons_queryset db t)))"
    using assms by (rule distinct_map_filter)
  then show ?thesis
    by (simp add: students_who_paid_after_demo_def distinct_remdups_id)
qed

lemma paid_after_demo_distinct_students:
  assumes "distinct (map (\<lambda>l. student (course l)) (finished_demo_lessons_queryset db t))"
  shows "paid_after_demo_body db t = int (length (students_who_paid_after_demo db t))"
  using assms
  by (simp add: paid_after_demo_body_def paid_after_demo_loop_count distinct_students_count)

text \<open>
  C2 (as amended). \<open>paid_after_demo\<close> is the number of finished demo lessons of this
  teacher whose student bought a course that is not a demo course after that lesson (the
  course was not created before the lesson started): a student is counted once for each
  such finished demo lesson. This is the number the method computes, for every database
  and teacher, and the number the property hands out through its cache.
\<close>

theorem paid_after_demo_counts_lessons:
  "paid_after_demo_body db t
     = int (length (filter (\<lambda>l. paid_course_exists db (student (course l)) (start l))
              (finished_demo_lessons_queryset db t)))
   \<and> paid_after_demo db c now t
     = cached (''PAID_AFTER_DEMO__'' @ str_nat (teacher.pk t)) (days2sec 1) c now
         (int (length (filter (\<lambda>l. paid_course_exists db (student (course l)) (start l))
                 (finished_demo_lessons_queryset db t))))"
  by (simp add: paid_after_demo_def paid_after_demo_body_def paid_after_demo_loop_count)

lemma ten_demos_paid_cold:
  "fst (paid_after_demo ten_demos_db Map.empty 0 example_teacher) = 3"
  by (simp add: paid_after_demo_def cached_def paid_after_demo_body_def ten_demos_queryset)
     (simp add: example_defs paid_course_exists_def)

theorem paid_after_demo_counts_lessons_witness:
  "paid_after_demo_body ten_demos_db example_teacher = 3
   \<and> length (filter (\<lambda>l. paid_course_exists ten_demos_db (student (course l)) (start l))
         (finished_demo_lessons_queryset ten_demos_db example_teacher)) = 3
   \<and> fst (paid_after_demo ten_demos_db Map.empty 0 example_teacher) = 3"
proof -
  let ?n = "int (length (filter (\<lambda>l. paid_course_exists ten_demos_db (student (course l)) (start l))
         (finished_demo_lessons_queryset ten_demos_db example_teacher)))"
  from paid_after_demo_counts_lessons [of ten_demos_db example_teacher Map.empty 0]
  have body: "paid_after_demo_body ten_demos_db example_teacher = ?n"
    and property: "paid_after_demo ten_demos_db Map.empty 0 example_teacher
      = cached (''PAID_AFTER_DEMO__'' @ str_nat (teacher.pk example_teacher)) (days2sec 1)
          Map.empty 0 ?n"
    by blast+
  from property have "fst (paid_after_demo ten_demos_db Map.empty 0 example_teacher) = ?n"
    by (simp add: cached_def)
  then have n: "?n = 3"
    by (simp only: ten_demos_paid_cold)
  with body show ?thesis
    by (simp add: ten_demos_paid_cold)
qed

text \<open>One student with two finished demo lessons and one course bought afterwards is
  counted twice, while the distinct students who paid are one.\<close>

theorem paid_after_demo_distinct_students_counterexample:
  "fst (paid_after_demo two_demos_db Map.empty 0 example_teacher) = 2
   \<and> students_who_paid_after_demo two_demos_db example_teacher = [7]
   \<and> fst (paid_after_demo two_demos_db Map.empty 0 example_teacher)
       \<noteq> int (length (students_who_paid_after_demo two_demos_db example_teacher))"
  by (simp add: paid_after_demo_def cached_def paid_after_demo_body_def
        students_who_paid_after_demo_def finished_demo_lessons_queryset_def
        paid_course_exists_def example_defs)

subsection \<open>The language for a student\<close>

text \<open>
  C6 (as amended). \<open>language_for_student\<close> returns a language machine name (the column
  \<open>machine_name\<close>, not \<open>code\<close>): any one member of the intersection of the machine
  names in the student's lesson history with this teacher and the machine names of the
  teacher's own languages when that intersection is not empty, and the machine name of
  the teacher's primary language when it is empty. It always returns.
\<close>

theorem language_for_student_result:
  "(lesson_languages db t s \<inter> teacher_languages t \<noteq> {} \<longrightarrow>
      (language_for_student db t s r \<longleftrightarrow> r \<in> lesson_languages db t s \<inter> teacher_languages t))
   \<and> (lesson_languages db t s \<inter> teacher_languages t = {} \<longrightarrow>
      (language_for_student db t s r \<longleftrightarrow> r = machine_name (teacher.language t)))
   \<and> (\<exists>m. language_for_student db t s m)"
proof (intro conjI impI)
  assume "lesson_languages db t s \<inter> teacher_languages t \<noteq> {}"
  then show "language_for_student db t s r \<longleftrightarrow> r \<in> lesson_languages db t s \<inter> teacher_languages t"
    by (auto simp: language_for_student.simps)
next
  assume "lesson_languages db t s \<inter> teacher_languages t = {}"
  then show "language_for_student db t s r \<longleftrightarrow> r = machine_name (teacher.language t)"
    by (auto simp: language_for_student.simps)
next
  show "\<exists>m. language_for_student db t s m"
  proof (cases "lesson_languages db t s \<inter> teacher_languages t = {}")
    case True
    then show ?thesis by (blast intro: language_for_student.KeyError)
  next
    case False
    then obtain m where "m \<in> lesson_languages db t s \<inter> teacher_languages t" by blast
    then show ?thesis by (blast intro: language_for_student.pop)
  qed
qed


lemma german_lesson_languages:
  "lesson_languages german_lessons_db bilingual_teacher 5 \<inter> teacher_languages bilingual_teacher
     = {''german''}"
  by (auto simp: lesson_languages_def teacher_languages_def german_lessons_db_def
        bilingual_teacher_def german_def empty_database_def example_teacher_def english_def)

lemma no_lessons: "lesson_languages empty_database t s = {}"
  by (simp add: lesson_languages_def empty_database_def)

lemma no_lesson_languages:
  "lesson_languages empty_database example_teacher 5 \<inter> teacher_languages example_teacher = {}"
  by (simp add: lesson_languages_def empty_database_def)

theorem language_for_student_result_witness:
  "lesson_languages german_lessons_db bilingual_teacher 5 \<inter> teacher_languages bilingual_teacher
     = {''german''}
   \<and> language_for_student german_lessons_db bilingual_teacher 5 ''german''
   \<and> \<not> language_for_student german_lessons_db bilingual_teacher 5 ''english''
   \<and> lesson_languages empty_database example_teacher 5 \<inter> teacher_languages example_teacher = {}
   \<and> language_for_student empty_database example_teacher 5 ''english''
   \<and> \<not> language_for_student empty_database example_teacher 5 ''german''"
proof -
  have primary: "machine_name (teacher.language example_teacher) = ''english''"
    by (simp add: example_teacher_def english_def)
  show ?thesis
    using language_for_student_result [of german_lessons_db bilingual_teacher 5 "''german''"]
      language_for_student_result [of german_lessons_db bilingual_teacher 5 "''english''"]
      language_for_student_result [of empty_database example_teacher 5 "''english''"]
      language_for_student_result [of empty_database example_teacher 5 "''german''"]
    by (simp add: german_lesson_languages no_lesson_languages primary)
qed

text \<open>With no lessons the method returns the machine name \<open>english\<close> of the primary
  language, not its code \<open>en\<close>.\<close>

theorem language_for_student_code_counterexample:
  "language.code (teacher.language example_teacher) = ''en''
   \<and> language_for_student empty_database example_teacher 5 ''english''
   \<and> \<not> language_for_student empty_database example_teacher 5
         (language.code (teacher.language example_teacher))"
proof -
  have primary: "machine_name (teacher.language example_teacher) = ''english''"
    and code: "language.code (teacher.language example_teacher) = ''en''"
    by (simp_all add: example_teacher_def english_def)
  show ?thesis
    by (simp add: language_for_student.simps no_lessons primary code)
qed

subsection \<open>Blocking\<close>

lemma find_replace_found:
  "find P xs = Some u \<Longrightarrow> P v \<Longrightarrow> find P (map (\<lambda>row. if P row then v else row) xs) = Some v"
  by (induction xs) (auto split: if_splits)

lemma find_pk:
  "find (\<lambda>u. user_account.pk u = k) xs = Some u \<Longrightarrow> user_account.pk u = k \<and> u \<in> set xs"
  by (induction xs) (auto split: if_splits)

lemma map_twice: "(\<And>x. g (g x) = g x) \<Longrightarrow> map g (map g xs) = map g xs"
  by simp
lemma block_unfold:
  "block db t s =
     (case find (\<lambda>u. user_account.pk u = user t) (User_objects db) of
        None \<Rightarrow> Inl DoesNotExist
      | Some u \<Rightarrow> Inr (db
      \<lparr>FreeTimeTemplate_objects :=
         map (\<lambda>r. if free_time_template.teacher_id r = teacher.pk t
                   then r\<lparr>free_time_template.available := False\<rparr> else r)
           (FreeTimeTemplate_objects db),
       FreeTime_objects :=
         map (\<lambda>r. if free_time.teacher_id r = teacher.pk t
                   then r\<lparr>free_time.available := False\<rparr> else r)
           (FreeTime_objects db),
       User_objects :=
         map (\<lambda>row. if user_account.pk row = user_account.pk u
                     then u\<lparr>is_active := False, password := ''!'' @ s\<rparr> else row)
           (User_objects db),
       signals_sent := signals_sent db @ [teacher_blocked (teacher.pk t)]\<rparr>))"
  by (simp add: block_def Let_def set_unusable_password_def split: option.splits)


text \<open>
  C7. \<open>block()\<close> is idempotent: a second call succeeds and leaves the state the first
  call left. Every free-time and free-time-template row of the teacher is unavailable,
  the linked account is inactive and its password is unusable; the availability tables
  and every other table are the same after two calls as after one, and the accounts
  differ at most in the random string of the unusable password. Only the signal is sent
  again.
\<close>

theorem block_idempotent:
  assumes "block db t s1 = Inr db1"
  shows "\<exists>db2. block db1 t s2 = Inr db2
     \<and> FreeTime_objects db2 = FreeTime_objects db1
     \<and> FreeTimeTemplate_objects db2 = FreeTimeTemplate_objects db1
     \<and> (\<forall>r \<in> set (FreeTime_objects db2).
           free_time.teacher_id r = teacher.pk t \<longrightarrow> \<not> free_time.available r)
     \<and> (\<forall>r \<in> set (FreeTimeTemplate_objects db2).
           free_time_template.teacher_id r = teacher.pk t \<longrightarrow> \<not> free_time_template.available r)
     \<and> (\<exists>u \<in> set (User_objects db2). user_account.pk u = user t)
     \<and> (\<forall>u \<in> set (User_objects db2).
           user_account.pk u = user t \<longrightarrow> \<not> is_active u \<and> \<not> has_usable_password u)
     \<and> map (\<lambda>u. u\<lparr>password := []\<rparr>) (User_objects db2)
         = map (\<lambda>u. u\<lparr>password := []\<rparr>) (User_objects db1)
     \<and> (s2 = s1 \<longrightarrow> User_objects db2 = User_objects db1)
     \<and> db2\<lparr>User_objects := User_objects db1, signals_sent := signals_sent db1\<rparr> = db1
     \<and> signals_sent db2 = signals_sent db1 @ [teacher_blocked (teacher.pk t)]"
proof -
  let ?P = "\<lambda>u. user_account.pk u = user t"
  let ?ft = "\<lambda>r. if free_time.teacher_id r = teacher.pk t
                   then r\<lparr>free_time.available := False\<rparr> else r"
  let ?ftt = "\<lambda>r. if free_time_template.teacher_id r = teacher.pk t
                   then r\<lparr>free_time_template.available := False\<rparr> else r"
  obtain u where u: "find ?P (User_objects db) = Some u"
  proof (cases "find ?P (User_objects db)")
    case None
    with assms have False by (simp add: block_unfold)
    then show ?thesis ..
  next
    case (Some u)
    then show ?thesis by (rule that)
  qed
  from find_pk [OF u] have pk: "user_account.pk u = user t" and mem: "u \<in> set (User_objects db)"
    by simp_all
  define u1 where "u1 = u\<lparr>is_active := False, password := ''!'' @ s1\<rparr>"
  define u2 where "u2 = u1\<lparr>is_active := False, password := ''!'' @ s2\<rparr>"
  have pk1: "user_account.pk u1 = user t" and pk2: "user_account.pk u2 = user t"
    by (simp_all add: u1_def u2_def pk)
  have db1: "db1 = db
      \<lparr>FreeTimeTemplate_objects := map ?ftt (FreeTimeTemplate_objects db),
       FreeTime_objects := map ?ft (FreeTime_objects db),
       User_objects := map (\<lambda>row. if ?P row then u1 else row) (User_objects db),
       signals_sent := signals_sent db @ [teacher_blocked (teacher.pk t)]\<rparr>"
    using assms u unfolding u1_def by (simp add: block_unfold pk)
  have ft1: "FreeTime_objects db1 = map ?ft (FreeTime_objects db)"
    and ftt1: "FreeTimeTemplate_objects db1 = map ?ftt (FreeTimeTemplate_objects db)"
    and users1: "User_objects db1 = map (\<lambda>row. if ?P row then u1 else row) (User_objects db)"
    and sig1: "signals_sent db1 = signals_sent db @ [teacher_blocked (teacher.pk t)]"
    by (simp_all add: db1)
  have find1: "find ?P (User_objects db1) = Some u1"
    unfolding users1 using u pk1 by (rule find_replace_found)
  define db2 where "db2 = db1
      \<lparr>FreeTimeTemplate_objects := map ?ftt (FreeTimeTemplate_objects db1),
       FreeTime_objects := map ?ft (FreeTime_objects db1),
       User_objects := map (\<lambda>row. if ?P row then u2 else row) (User_objects db1),
       signals_sent := signals_sent db1 @ [teacher_blocked (teacher.pk t)]\<rparr>"
  have second: "block db1 t s2 = Inr db2"
    by (simp add: block_unfold find1 db2_def u2_def pk1)
  have ft2: "FreeTime_objects db2 = FreeTime_objects db1"
    unfolding db2_def ft1 by (simp add: map_twice)
  have ftt2: "FreeTimeTemplate_objects db2 = FreeTimeTemplate_objects db1"
    unfolding db2_def ftt1 by (simp add: map_twice)
  have users2: "User_objects db2 = map (\<lambda>row. if ?P row then u2 else row) (User_objects db)"
    unfolding db2_def users1 by (simp add: pk1 cong: if_cong)
  have off: "\<forall>r \<in> set (FreeTime_objects db2).
           free_time.teacher_id r = teacher.pk t \<longrightarrow> \<not> free_time.available r"
    unfolding ft2 ft1 by auto
  have off_templates: "\<forall>r \<in> set (FreeTimeTemplate_objects db2).
           free_time_template.teacher_id r = teacher.pk t \<longrightarrow> \<not> free_time_template.available r"
    unfolding ftt2 ftt1 by auto
  have linked: "\<exists>u \<in> set (User_objects db2). user_account.pk u = user t"
    unfolding users2 using mem pk pk2 by force
  have locked: "\<forall>u \<in> set (User_objects db2).
           user_account.pk u = user t \<longrightarrow> \<not> is_active u \<and> \<not> has_usable_password u"
    unfolding users2 by (auto simp: u2_def has_usable_password_def)
  have same_accounts: "map (\<lambda>u. u\<lparr>password := []\<rparr>) (User_objects db2)
         = map (\<lambda>u. u\<lparr>password := []\<rparr>) (User_objects db1)"
    unfolding users2 users1 by (simp add: u2_def u1_def)
  have same_suffix: "s2 = s1 \<longrightarrow> User_objects db2 = User_objects db1"
    unfolding users2 users1 by (simp add: u2_def u1_def)
  have rest: "db2\<lparr>User_objects := User_objects db1, signals_sent := signals_sent db1\<rparr> = db1"
    using ft2 ftt2 unfolding db2_def by simp
  have sig2: "signals_sent db2 = signals_sent db1 @ [teacher_blocked (teacher.pk t)]"
    by (simp add: db2_def)
  from second ft2 ftt2 off off_templates linked locked same_accounts same_suffix rest sig2
  show ?thesis by (intro exI [of _ db2] conjI)
qed


lemma block_example:
  "block availability_db example_teacher ''abc'' = Inr blocked_once_db"
  by (simp add: block_unfold availability_db_def blocked_once_db_def empty_database_def
        example_teacher_def)

theorem block_idempotent_witness:
  "block availability_db example_teacher ''abc'' = Inr blocked_once_db
   \<and> (\<exists>db2. block blocked_once_db example_teacher ''xyz'' = Inr db2
         \<and> FreeTime_objects db2 = FreeTime_objects blocked_once_db
         \<and> FreeTimeTemplate_objects db2 = FreeTimeTemplate_objects blocked_once_db
         \<and> (\<forall>u \<in> set (User_objects db2).
               user_account.pk u = user example_teacher \<longrightarrow>
               \<not> is_active u \<and> \<not> has_usable_password u)
         \<and> db2\<lparr>User_objects := User_objects blocked_once_db,
                signals_sent := signals_sent blocked_once_db\<rparr> = blocked_once_db)"
  using block_idempotent [OF block_example, of "''xyz''"] block_example by blast

subsection \<open>Basic materials\<close>

text \<open>
  C8. For a teacher whose russian-market flag is unset \<open>get_basic_materials()\<close> returns
  the empty list and nothing else, whatever the disk holds.
\<close>

theorem get_basic_materials_not_russian:
  "\<not> teacher.russian t \<Longrightarrow> (get_basic_materials env t r \<longleftrightarrow> r = Inr [])"
  by (simp add: get_basic_materials.simps)

theorem get_basic_materials_not_russian_witness:
  "\<not> teacher.russian example_teacher
   \<and> file_system example_env ''/srv/app/materials/courses/templates/ru/EN-BASIC-S'' \<noteq> None
   \<and> get_basic_materials example_env example_teacher (Inr [])
   \<and> \<not> get_basic_materials example_env example_teacher (Inl NotADirectoryError)"
proof -
  have flag: "\<not> teacher.russian example_teacher"
    by (simp add: example_teacher_def)
  show ?thesis
    using get_basic_materials_not_russian [OF flag, of example_env "Inr []"]
      get_basic_materials_not_russian [OF flag, of example_env "Inl NotADirectoryError"] flag
    by (simp add: example_env_def)
qed

text \<open>On the same disk the teacher on the russian market gets the two files whose names
  match the pattern.\<close>

lemma upper_en: "upper ''en'' = ''EN''"
  by code_simp

lemma module_pdf_examples:
  "module_pdf_match (code_points ''module1.pdf'')"
  "\<not> module_pdf_match (code_points ''notes.txt'')"
  "module_pdf_match (code_points ''module12_theory.pdf'')"
  "\<not> module_pdf_match (code_points ''module.pdf'')"
  "module_pdf_match (code_points ''module'' @ [1633] @ code_points ''.pdf'')"
  by (simp_all add: module_pdf_match_def starts_with_def is_digit_def decimal_zeros_def
        code_points_def)

lemma russian_codes: "all_languages_codes russian_teacher = {''en''}"
  by (simp add: all_languages_codes_def russian_teacher_def example_teacher_def english_def)

lemma get_basic_materials_russian_example:
  "get_basic_materials example_env russian_teacher
     (Inr (map (\<lambda>f. \<lparr>material.code = ''EN-BASIC-S'', name = f,
                     url = code_points ''https://school.example/teacher_material_template''
                           @ code_points ''/ru/EN-BASIC-S/'' @ f
                           @ code_points ''?sign=signed-EN-BASIC-S-'' @ f\<rparr>)
             [code_points ''module1.pdf'', code_points ''module12_theory.pdf'',
              code_points ''module'' @ [1633] @ code_points ''.pdf'']))"
proof -
  have "get_basic_materials example_env russian_teacher
          (basic_materials_loop example_env russian_teacher (basic_codes [''en'']) [])"
    by (rule get_basic_materials.russian)
       (simp_all add: russian_codes, simp add: russian_teacher_def)
  moreover have "basic_materials_loop example_env russian_teacher (basic_codes [''en'']) []
     = Inr (map (\<lambda>f. \<lparr>material.code = ''EN-BASIC-S'', name = f,
                     url = code_points ''https://school.example/teacher_material_template''
                           @ code_points ''/ru/EN-BASIC-S/'' @ f
                           @ code_points ''?sign=signed-EN-BASIC-S-'' @ f\<rparr>)
             [code_points ''module1.pdf'', code_points ''module12_theory.pdf'',
              code_points ''module'' @ [1633] @ code_points ''.pdf''])"
    by (simp add: basic_codes_def upper_en path_join_def example_env_def module_pdf_examples
          russian_teacher_def example_teacher_def Let_def)
       (simp add: code_points_def module_pdf_match_def starts_with_def is_digit_def
          decimal_zeros_def)
  ultimately show ?thesis by simp
qed

subsection \<open>The name of a teacher material\<close>

text \<open>
  C9 (as amended). \<open>TeacherMaterial.name\<close> returns the base name of the opened file
  when the storage opens the attachment, and the fixed placeholder string when the storage
  raises \<open>FileNotFoundError\<close>. No other error is caught: a material with no file
  associated raises \<open>ValueError\<close>, and any other error of the storage is raised to the
  caller as it is.
\<close>

theorem material_name_result:
  "(attachment m \<noteq> [] \<and> materials_fs (attachment m) = Inr file_name \<longrightarrow>
      material_name materials_fs m = Inr (basename file_name))
   \<and> (attachment m \<noteq> [] \<and> materials_fs (attachment m) = Inl FileNotFoundError \<longrightarrow>
      material_name materials_fs m = Inr file_not_found_placeholder)
   \<and> (attachment m \<noteq> [] \<and> materials_fs (attachment m) = Inl e \<and> e \<noteq> FileNotFoundError \<longrightarrow>
      material_name materials_fs m = Inl e)
   \<and> (attachment m = [] \<longrightarrow> material_name materials_fs m = Inl ValueError)"
  by (cases e) (simp_all add: material_name_def attachment_file_def)

lemma basename_book: "basename ''/var/materials/teachers/book.pdf'' = ''book.pdf''"
  by (simp add: basename_def)

theorem material_name_result_witness:
  "material_name example_storage (example_material ''teachers/book.pdf'') = Inr ''book.pdf''
   \<and> material_name example_storage (example_material ''teachers/gone.pdf'')
       = Inr ''-- file not found --''"
proof -
  have book: "attachment (example_material ''teachers/book.pdf'') \<noteq> []
      \<and> example_storage (attachment (example_material ''teachers/book.pdf''))
          = Inr ''/var/materials/teachers/book.pdf''"
    by (simp add: example_material_def example_storage_def)
  have gone: "attachment (example_material ''teachers/gone.pdf'') \<noteq> []
      \<and> example_storage (attachment (example_material ''teachers/gone.pdf''))
          = Inl FileNotFoundError"
    by (simp add: example_material_def example_storage_def)
  from book
    material_name_result [of "example_material ''teachers/book.pdf''" example_storage
      "''/var/materials/teachers/book.pdf''"]
  have "material_name example_storage (example_material ''teachers/book.pdf'')
      = Inr (basename ''/var/materials/teachers/book.pdf'')"
    by blast
  moreover from gone
    material_name_result [of "example_material ''teachers/gone.pdf''" example_storage]
  have "material_name example_storage (example_material ''teachers/gone.pdf'')
      = Inr file_not_found_placeholder"
    by blast
  ultimately show ?thesis
    by (simp add: basename_book file_not_found_placeholder_def)
qed

text \<open>A material with no file associated raises \<open>ValueError\<close>, and a file the storage
  refuses to open raises \<open>PermissionError\<close>: neither gets the placeholder.\<close>

theorem material_name_raises_counterexample:
  "material_name example_storage (example_material []) = Inl ValueError
   \<and> material_name example_storage (example_material ''teachers/secret.pdf'')
       = Inl PermissionError"
  by (simp add: material_name_def attachment_file_def example_material_def example_storage_def)

subsection \<open>Onboarding\<close>

text \<open>Attaching the additional languages touches only the teacher table and the list of
  the teacher's additional languages, and it succeeds when every key has a language row.\<close>

lemma add_languages_keeps:
  "add_languages db t pks = Inr (t', db') \<Longrightarrow>
     SalaryProfile_objects db' = SalaryProfile_objects db
   \<and> Group_objects db' = Group_objects db
   \<and> user_groups db' = user_groups db
   \<and> UserTest_objects db' = UserTest_objects db
   \<and> outbox db' = outbox db
   \<and> Language_objects db' = Language_objects db
   \<and> user t' = user t \<and> teacher.pk t' = teacher.pk t
   \<and> teacher.russian t' = teacher.russian t \<and> teacher.native t' = teacher.native t
   \<and> position t' = position t \<and> teacher.language t' = teacher.language t"
proof (induction pks arbitrary: db t)
  case Nil
  then show ?case by simp
next
  case (Cons lang_pk pks)
  from Cons.prems obtain l where
    found: "find (\<lambda>l. language.pk l = lang_pk) (Language_objects db) = Some l"
    by (cases "find (\<lambda>l. language.pk l = lang_pk) (Language_objects db)") simp_all
  let ?t1 = "if lang_pk \<in> set (map language.pk (teacher.additional_languages t)) then t
             else t\<lparr>teacher.additional_languages := teacher.additional_languages t @ [l]\<rparr>"
  from Cons.prems found have "add_languages (save_teacher db ?t1) ?t1 pks = Inr (t', db')"
    by (simp add: Let_def)
  from Cons.IH [OF this] show ?case
    by (simp add: save_teacher_def split: if_splits)
qed

lemma add_languages_succeeds:
  "\<forall>k \<in> set pks. k \<in> language.pk ` set (Language_objects db) \<Longrightarrow>
     \<exists>t' db'. add_languages db t pks = Inr (t', db')"
proof (induction pks arbitrary: db t)
  case Nil
  then show ?case by simp
next
  case (Cons lang_pk pks)
  from Cons.prems have "lang_pk \<in> language.pk ` set (Language_objects db)" by simp
  then obtain l where
    found: "find (\<lambda>l. language.pk l = lang_pk) (Language_objects db) = Some l"
    by (cases "find (\<lambda>l. language.pk l = lang_pk) (Language_objects db)")
       (auto simp add: find_None_iff)
  let ?t1 = "if lang_pk \<in> set (map language.pk (teacher.additional_languages t)) then t
             else t\<lparr>teacher.additional_languages := teacher.additional_languages t @ [l]\<rparr>"
  from Cons.prems
  have "\<forall>k \<in> set pks. k \<in> language.pk ` set (Language_objects (save_teacher db ?t1))"
    by (simp add: save_teacher_def)
  from Cons.IH [OF this, of ?t1] found show ?case
    by (simp add: Let_def)
qed


text \<open>
  The stages of \<open>Teacher.create\<close>. A call that returns has written the position generated
  for the new row, which has no additional language yet, one salary profile, the group and
  the membership, the two tests of a teacher on the russian market and the greeting unless
  it is suppressed; and a call for an account with no teacher and no salary profile, with
  keys of existing languages, on a day that has a next month, returns.
\<close>

lemma create_stages:
  shows create_result:
    "create in_case db today account account_password kw = Inr (t, db') \<Longrightarrow>
       user t = user_account.pk account
     \<and> teacher.language t = kw_language kw
     \<and> teacher.native t = kw_native kw
     \<and> position t = Some (generate_position in_case db (t\<lparr>additional_languages := []\<rparr>))
     \<and> Language_objects db' = Language_objects db
     \<and> \<not> list_ex (\<lambda>p. salary_profile.user_id p = user_account.pk account)
           (SalaryProfile_objects db)
     \<and> SalaryProfile_objects db'
         = SalaryProfile_objects db @ [\<lparr>salary_profile.user_id = user_account.pk account\<rparr>]
     \<and> Group_objects db'
         = (if helpdesk_support \<in> set (Group_objects db) then Group_objects db
            else Group_objects db @ [helpdesk_support])
     \<and> user_groups db'
         = (if (user_account.pk account, helpdesk_support) \<in> set (user_groups db)
            then user_groups db
            else user_groups db @ [(user_account.pk account, helpdesk_support)])
     \<and> (if kw_russian kw
         then \<exists>due. plus_one_month today = Inr due
                \<and> UserTest_objects db'
                    = UserTest_objects db
                      @ [\<lparr>user_test.user_id = user_account.pk account, asset = ''webinar1'',
                          due_date = due\<rparr>,
                         \<lparr>user_test.user_id = user_account.pk account, asset = ''webinar2'',
                          due_date = due\<rparr>]
         else UserTest_objects db' = UserTest_objects db)
     \<and> outbox db'
         = (if kw_send_greeting_email kw
            then outbox db
                 @ [\<lparr>recipient = user_account.pk account, subject = greeting_subject,
                     template = greeting_template, ctx_name = first_name account,
                     ctx_password = account_password, ctx_teacher = teacher.pk t,
                     ctx_native = kw_native kw\<rparr>]
            else outbox db)"
    (is "?ok \<Longrightarrow> ?effects")
  and create_succeeds:
    "\<not> list_ex (\<lambda>t. user t = user_account.pk account) (Teacher_objects db) \<Longrightarrow>
     \<not> list_ex (\<lambda>p. salary_profile.user_id p = user_account.pk account)
         (SalaryProfile_objects db) \<Longrightarrow>
     \<forall>k \<in> set (case kw_additional_languages kw of None \<Rightarrow> [] | Some ks \<Rightarrow> ks).
        k \<in> language.pk ` set (Language_objects db) \<Longrightarrow>
     plus_one_month today = Inr due1 \<Longrightarrow>
     \<exists>t db'. create in_case db today account account_password kw = Inr (t, db')"
    (is "?new \<Longrightarrow> ?no_profile \<Longrightarrow> ?known \<Longrightarrow> ?due \<Longrightarrow> ?success")
proof -
  define pks where "pks = (case kw_additional_languages kw of None \<Rightarrow> [] | Some ks \<Rightarrow> ks)"
  define t0 where
    "t0 = \<lparr>teacher.pk = next_teacher_pk db, user = user_account.pk account,
           position = None, teacher.language = kw_language kw,
           additional_languages = [], teacher.russian = kw_russian kw,
           teacher.native = kw_native kw, language_support = kw_language_support kw\<rparr>"
  define db1 where "db1 = db\<lparr>Teacher_objects := Teacher_objects db @ [t0]\<rparr>"
  define t1 where "t1 = t0\<lparr>position := Some (generate_position in_case db1 t0)\<rparr>"
  define db2 where "db2 = save_teacher db1 t1"
  define finish where
    "finish = (\<lambda>teacher2 db3.
       if list_ex (\<lambda>p. salary_profile.user_id p = user_account.pk account)
            (SalaryProfile_objects db3)
       then Inl IntegrityError
       else
         let db4 = db3\<lparr>SalaryProfile_objects :=
                       SalaryProfile_objects db3
                       @ [\<lparr>salary_profile.user_id = user_account.pk account\<rparr>]\<rparr>;
             db5 = (if helpdesk_support \<in> set (Group_objects db4) then db4
                    else db4\<lparr>Group_objects := Group_objects db4 @ [helpdesk_support]\<rparr>);
             db6 = (if (user_account.pk account, helpdesk_support) \<in> set (user_groups db5)
                    then db5
                    else db5\<lparr>user_groups :=
                              user_groups db5
                              @ [(user_account.pk account, helpdesk_support)]\<rparr>)
         in case (if teacher.russian teacher2 then assign_tests db6 today teacher2
                  else Inr db6) of
              Inl e \<Rightarrow> Inl e
            | Inr db7 \<Rightarrow>
                Inr (teacher2,
                     if kw_send_greeting_email kw
                     then db7\<lparr>outbox :=
                               outbox db7
                               @ [\<lparr>recipient = user teacher2, subject = greeting_subject,
                                   template = greeting_template,
                                   ctx_name = first_name account,
                                   ctx_password = account_password,
                                   ctx_teacher = teacher.pk teacher2,
                                   ctx_native = teacher.native teacher2\<rparr>]\<rparr>
                     else db7))"
  have unfold:
    "create in_case db today account account_password kw =
       (if list_ex (\<lambda>t. user t = user_account.pk account) (Teacher_objects db)
        then Inl IntegrityError
        else case add_languages db2 t1 pks of
               Inl e \<Rightarrow> Inl e
             | Inr (teacher2, db3) \<Rightarrow> finish teacher2 db3)"
    unfolding create_def Let_def pks_def t0_def db1_def t1_def db2_def finish_def
    by (rule refl)
  have t1: "user t1 = user_account.pk account" "teacher.russian t1 = kw_russian kw"
    "teacher.native t1 = kw_native kw" "teacher.language t1 = kw_language kw"
    by (simp_all add: t1_def t0_def)
  have db2: "SalaryProfile_objects db2 = SalaryProfile_objects db"
    "Group_objects db2 = Group_objects db" "user_groups db2 = user_groups db"
    "UserTest_objects db2 = UserTest_objects db" "outbox db2 = outbox db"
    "Language_objects db2 = Language_objects db"
    by (simp_all add: db2_def save_teacher_def db1_def)
  show ?effects if ok: ?ok
  proof -
    from ok obtain t2 db3 where
      al: "add_languages db2 t1 pks = Inr (t2, db3)" and fin: "finish t2 db3 = Inr (t, db')"
      unfolding unfold by (auto split: if_splits sum.splits)
    note frame = add_languages_keeps [OF al]
    have t2: "user t2 = user_account.pk account" "teacher.russian t2 = kw_russian kw"
      "teacher.native t2 = kw_native kw" "teacher.language t2 = kw_language kw"
      using frame t1 by simp_all
    have db3: "SalaryProfile_objects db3 = SalaryProfile_objects db"
      "Group_objects db3 = Group_objects db" "user_groups db3 = user_groups db"
      "UserTest_objects db3 = UserTest_objects db" "outbox db3 = outbox db"
      "Language_objects db3 = Language_objects db"
      using frame db2 by simp_all
    have no_profile: "\<not> list_ex (\<lambda>p. salary_profile.user_id p = user_account.pk account)
                         (SalaryProfile_objects db3)"
      using fin by (auto simp add: finish_def)
    have due: "\<exists>due. plus_one_month today = Inr due" if "kw_russian kw"
      using fin no_profile t2(2) that
      by (cases "plus_one_month today") (simp_all add: finish_def Let_def assign_tests_def)
    have same: "t = t2"
      using fin no_profile
      by (auto simp add: finish_def Let_def assign_tests_def split: if_splits sum.splits)
    have "position t2 = Some (generate_position in_case db1 t0)"
      using frame by (simp add: t1_def)
    also have "generate_position in_case db1 t0
        = generate_position in_case db (t2\<lparr>additional_languages := []\<rparr>)"
      by (simp add: generate_position_def all_languages_codes_def t2 db1_def t0_def)
    finally have pos: "position t2
        = Some (generate_position in_case db (t2\<lparr>additional_languages := []\<rparr>))" .
    have tables: "Language_objects db' = Language_objects db3"
      "SalaryProfile_objects db'
        = SalaryProfile_objects db3 @ [\<lparr>salary_profile.user_id = user_account.pk account\<rparr>]"
      "Group_objects db'
        = (if helpdesk_support \<in> set (Group_objects db3) then Group_objects db3
           else Group_objects db3 @ [helpdesk_support])"
      "user_groups db'
        = (if (user_account.pk account, helpdesk_support) \<in> set (user_groups db3)
           then user_groups db3
           else user_groups db3 @ [(user_account.pk account, helpdesk_support)])"
      "outbox db'
        = (if kw_send_greeting_email kw
           then outbox db3
                @ [\<lparr>recipient = user t2, subject = greeting_subject,
                    template = greeting_template, ctx_name = first_name account,
                    ctx_password = account_password, ctx_teacher = teacher.pk t2,
                    ctx_native = teacher.native t2\<rparr>]
           else outbox db3)"
      using fin no_profile
      by (auto simp add: finish_def Let_def assign_tests_def create_test_def
               split: if_splits sum.splits)
    have tests: "UserTest_objects db'
        = UserTest_objects db3
          @ [\<lparr>user_test.user_id = user t2, asset = ''webinar1'', due_date = due\<rparr>,
             \<lparr>user_test.user_id = user t2, asset = ''webinar2'', due_date = due\<rparr>]"
      if "kw_russian kw" "plus_one_month today = Inr due" for due
      using fin no_profile t2(2) that
      by (auto simp add: finish_def Let_def assign_tests_def create_test_def)
    have no_tests: "UserTest_objects db' = UserTest_objects db3" if "\<not> kw_russian kw"
      using fin no_profile t2(2) that
      by (auto simp add: finish_def Let_def)
    have assigned:
      "if kw_russian kw
       then \<exists>due. plus_one_month today = Inr due
              \<and> UserTest_objects db'
                  = UserTest_objects db
                    @ [\<lparr>user_test.user_id = user_account.pk account, asset = ''webinar1'',
                        due_date = due\<rparr>,
                       \<lparr>user_test.user_id = user_account.pk account, asset = ''webinar2'',
                        due_date = due\<rparr>]
       else UserTest_objects db' = UserTest_objects db"
    proof (cases "kw_russian kw")
      case True
      from due [OF True] obtain d where "plus_one_month today = Inr d"
        by blast
      with tests [OF True this] True show ?thesis
        by (simp add: t2 db3)
    next
      case False
      with no_tests show ?thesis
        by (simp add: db3)
    qed
    show ?effects
      using no_profile
      by (simp add: same t2 db3 pos tables assigned)
  qed
  show ?success if new: ?new and no_profile: ?no_profile and known: ?known and due: ?due
  proof -
    from known have "\<forall>k \<in> set pks. k \<in> language.pk ` set (Language_objects db2)"
      by (simp add: pks_def db2)
    from add_languages_succeeds [OF this] obtain t2 db3 where
      al: "add_languages db2 t1 pks = Inr (t2, db3)"
      by blast
    from add_languages_keeps [OF al] db2 no_profile
    have "\<not> list_ex (\<lambda>p. salary_profile.user_id p = user_account.pk account)
              (SalaryProfile_objects db3)"
      by simp
    then have "\<exists>r. finish t2 db3 = Inr r"
      by (simp add: finish_def Let_def assign_tests_def due)
    with new al show ?success
      by (auto simp add: unfold)
  qed
qed

lemma leap_day: "plus_one_month end_of_january = Inr \<lparr>year = 2024, month = 2, day = 29\<rparr>"
  by (simp add: plus_one_month_def end_of_january_def days_in_month_def is_leap_def)

text \<open>
  C3. \<open>Teacher.create\<close> with the russian-market flag set: every call that returns a
  teacher has created exactly one salary profile for the account, the group
  \<open>Helpdesk support\<close> exists afterwards (it is created only when it was missing) and the
  account is a member of it, exactly two test assignments are added, \<open>webinar1\<close> and
  \<open>webinar2\<close>, both due one calendar month from today, and the greeting is handed to the
  mailer exactly when it is not suppressed: a suppressed greeting leaves the outbox as it
  was. And the call does return a teacher for an account that has no teacher and no salary
  profile yet, when the keys of the additional languages are keys of languages and today
  has a day one month later.
\<close>

theorem create_onboarding:
  assumes russian: "kw_russian kw"
  shows "(\<forall>t db'. create in_case db today account account_password kw = Inr (t, db') \<longrightarrow>
            user t = user_account.pk account
          \<and> SalaryProfile_objects db'
              = SalaryProfile_objects db
                @ [\<lparr>salary_profile.user_id = user_account.pk account\<rparr>]
          \<and> length (filter (\<lambda>p. salary_profile.user_id p = user_account.pk account)
                      (SalaryProfile_objects db')) = 1
          \<and> Group_objects db'
              = (if helpdesk_support \<in> set (Group_objects db) then Group_objects db
                 else Group_objects db @ [helpdesk_support])
          \<and> helpdesk_support \<in> set (Group_objects db')
          \<and> (user_account.pk account, helpdesk_support) \<in> set (user_groups db')
          \<and> (\<exists>due. plus_one_month today = Inr due
                \<and> UserTest_objects db'
                    = UserTest_objects db
                      @ [\<lparr>user_test.user_id = user_account.pk account, asset = ''webinar1'',
                          due_date = due\<rparr>,
                         \<lparr>user_test.user_id = user_account.pk account, asset = ''webinar2'',
                          due_date = due\<rparr>])
          \<and> outbox db'
              = (if kw_send_greeting_email kw
                 then outbox db
                      @ [\<lparr>recipient = user_account.pk account, subject = greeting_subject,
                          template = greeting_template, ctx_name = first_name account,
                          ctx_password = account_password, ctx_teacher = teacher.pk t,
                          ctx_native = kw_native kw\<rparr>]
                 else outbox db))
       \<and> (\<not> list_ex (\<lambda>t. user t = user_account.pk account) (Teacher_objects db)
          \<and> \<not> list_ex (\<lambda>p. salary_profile.user_id p = user_account.pk account)
                (SalaryProfile_objects db)
          \<and> (\<forall>k \<in> set (case kw_additional_languages kw of None \<Rightarrow> [] | Some ks \<Rightarrow> ks).
                k \<in> language.pk ` set (Language_objects db))
          \<and> (\<exists>due. plus_one_month today = Inr due)
          \<longrightarrow> (\<exists>t db'. create in_case db today account account_password kw = Inr (t, db')))"
proof (intro conjI allI impI)
  fix t db'
  assume ok: "create in_case db today account account_password kw = Inr (t, db')"
  note r = create_result [OF ok]
  from r show "user t = user_account.pk account"
    by simp
  from r show profiles: "SalaryProfile_objects db'
      = SalaryProfile_objects db @ [\<lparr>salary_profile.user_id = user_account.pk account\<rparr>]"
    by simp
  from r have "filter (\<lambda>p. salary_profile.user_id p = user_account.pk account)
                 (SalaryProfile_objects db) = []"
    by (simp add: list_ex_iff filter_empty_conv)
  then show "length (filter (\<lambda>p. salary_profile.user_id p = user_account.pk account)
                       (SalaryProfile_objects db')) = 1"
    by (simp add: profiles)
  from r show groups: "Group_objects db'
      = (if helpdesk_support \<in> set (Group_objects db) then Group_objects db
         else Group_objects db @ [helpdesk_support])"
    by simp
  show "helpdesk_support \<in> set (Group_objects db')"
    by (simp add: groups)
  from r have "user_groups db'
      = (if (user_account.pk account, helpdesk_support) \<in> set (user_groups db)
         then user_groups db
         else user_groups db @ [(user_account.pk account, helpdesk_support)])"
    by simp
  then show "(user_account.pk account, helpdesk_support) \<in> set (user_groups db')"
    by simp
  from r russian show "\<exists>due. plus_one_month today = Inr due
      \<and> UserTest_objects db'
          = UserTest_objects db
            @ [\<lparr>user_test.user_id = user_account.pk account, asset = ''webinar1'',
                due_date = due\<rparr>,
               \<lparr>user_test.user_id = user_account.pk account, asset = ''webinar2'',
                due_date = due\<rparr>]"
    by simp
  from r show "outbox db'
      = (if kw_send_greeting_email kw
         then outbox db
              @ [\<lparr>recipient = user_account.pk account, subject = greeting_subject,
                  template = greeting_template, ctx_name = first_name account,
                  ctx_password = account_password, ctx_teacher = teacher.pk t,
                  ctx_native = kw_native kw\<rparr>]
         else outbox db)"
    by simp
next
  assume "\<not> list_ex (\<lambda>t. user t = user_account.pk account) (Teacher_objects db)
          \<and> \<not> list_ex (\<lambda>p. salary_profile.user_id p = user_account.pk account)
                (SalaryProfile_objects db)
          \<and> (\<forall>k \<in> set (case kw_additional_languages kw of None \<Rightarrow> [] | Some ks \<Rightarrow> ks).
                k \<in> language.pk ` set (Language_objects db))
          \<and> (\<exists>due. plus_one_month today = Inr due)"
  then show "\<exists>t db'. create in_case db today account account_password kw = Inr (t, db')"
    using create_succeeds [of account db kw today _ in_case account_password] by blast
qed

theorem create_onboarding_witness:
  "kw_russian example_kwargs
   \<and> (\<exists>t db'. create example_in_case catalogue_db end_of_january example_account ''secret''
                 example_kwargs = Inr (t, db')
        \<and> SalaryProfile_objects db' = [\<lparr>salary_profile.user_id = 1\<rparr>]
        \<and> Group_objects db' = [helpdesk_support]
        \<and> (1, helpdesk_support) \<in> set (user_groups db')
        \<and> UserTest_objects db'
            = [\<lparr>user_test.user_id = 1, asset = ''webinar1'',
                due_date = \<lparr>year = 2024, month = 2, day = 29\<rparr>\<rparr>,
               \<lparr>user_test.user_id = 1, asset = ''webinar2'',
                due_date = \<lparr>year = 2024, month = 2, day = 29\<rparr>\<rparr>]
        \<and> map ctx_password (outbox db') = [''secret''])
   \<and> (\<exists>t db'. create example_in_case catalogue_db end_of_january example_account ''secret''
                 (example_kwargs\<lparr>kw_send_greeting_email := False\<rparr>) = Inr (t, db')
        \<and> outbox db' = [])"
proof -
  have russian: "kw_russian example_kwargs"
    "kw_russian (example_kwargs\<lparr>kw_send_greeting_email := False\<rparr>)"
    by (simp_all add: example_kwargs_def)
  note greeted =
    create_onboarding [OF russian(1), where in_case = example_in_case and db = catalogue_db
      and today = end_of_january and account = example_account
      and account_password = "''secret''"]
  note silent =
    create_onboarding [OF russian(2), where in_case = example_in_case and db = catalogue_db
      and today = end_of_january and account = example_account
      and account_password = "''secret''"]
  have fresh: "\<not> list_ex (\<lambda>t. user t = user_account.pk example_account)
                  (Teacher_objects catalogue_db)"
    "\<not> list_ex (\<lambda>p. salary_profile.user_id p = user_account.pk example_account)
         (SalaryProfile_objects catalogue_db)"
    by (simp_all add: catalogue_db_def empty_database_def)
  have known: "\<forall>k \<in> set (case kw_additional_languages example_kwargs of
                              None \<Rightarrow> [] | Some ks \<Rightarrow> ks).
                 k \<in> language.pk ` set (Language_objects catalogue_db)"
    "\<forall>k \<in> set (case kw_additional_languages
                            (example_kwargs\<lparr>kw_send_greeting_email := False\<rparr>) of
                       None \<Rightarrow> [] | Some ks \<Rightarrow> ks).
        k \<in> language.pk ` set (Language_objects catalogue_db)"
    by (simp_all add: example_kwargs_def)
  from greeted fresh known(1) leap_day obtain t db' where
    ok: "create example_in_case catalogue_db end_of_january example_account ''secret''
           example_kwargs = Inr (t, db')"
    by blast
  from silent fresh known(2) leap_day obtain t0 db0 where
    ok0: "create example_in_case catalogue_db end_of_january example_account ''secret''
            (example_kwargs\<lparr>kw_send_greeting_email := False\<rparr>) = Inr (t0, db0)"
    by blast
  from greeted ok
  have effects: "SalaryProfile_objects db' = [\<lparr>salary_profile.user_id = 1\<rparr>]"
    "Group_objects db' = [helpdesk_support]"
    "(1, helpdesk_support) \<in> set (user_groups db')"
    "UserTest_objects db'
       = [\<lparr>user_test.user_id = 1, asset = ''webinar1'',
           due_date = \<lparr>year = 2024, month = 2, day = 29\<rparr>\<rparr>,
          \<lparr>user_test.user_id = 1, asset = ''webinar2'',
           due_date = \<lparr>year = 2024, month = 2, day = 29\<rparr>\<rparr>]"
    "map ctx_password (outbox db') = [''secret'']"
    by (simp_all add: catalogue_db_def empty_database_def example_account_def
          example_kwargs_def leap_day)
  from silent ok0 have quiet: "outbox db0 = []"
    by (simp add: catalogue_db_def empty_database_def example_kwargs_def)
  show ?thesis
  proof (intro conjI)
    show "kw_russian example_kwargs"
      by (rule russian(1))
    show "\<exists>t db'. create example_in_case catalogue_db end_of_january example_account ''secret''
                   example_kwargs = Inr (t, db')
          \<and> SalaryProfile_objects db' = [\<lparr>salary_profile.user_id = 1\<rparr>]
          \<and> Group_objects db' = [helpdesk_support]
          \<and> (1, helpdesk_support) \<in> set (user_groups db')
          \<and> UserTest_objects db'
              = [\<lparr>user_test.user_id = 1, asset = ''webinar1'',
                  due_date = \<lparr>year = 2024, month = 2, day = 29\<rparr>\<rparr>,
                 \<lparr>user_test.user_id = 1, asset = ''webinar2'',
                  due_date = \<lparr>year = 2024, month = 2, day = 29\<rparr>\<rparr>]
          \<and> map ctx_password (outbox db') = [''secret'']"
      using ok effects by (intro exI [of _ t] exI [of _ db']) simp
    show "\<exists>t db'. create example_in_case catalogue_db end_of_january example_account ''secret''
                   (example_kwargs\<lparr>kw_send_greeting_email := False\<rparr>) = Inr (t, db')
          \<and> outbox db' = []"
      using ok0 quiet by (intro exI [of _ t0] exI [of _ db0]) simp
  qed
qed

subsection \<open>The position of a teacher\<close>

text \<open>
  The format of \<open>generate_position\<close>: when no rendered name contains the separator, the
  plural suffix stands exactly when the queryset has more than one language; and the
  queryset has one row for each code of the teacher when the codes of the language table
  are distinct and hold the teacher's codes. \<open>Teacher.create\<close> stores the position
  generated for the teacher without its additional languages.
\<close>

lemma str_in_append: "str_in sub (p @ sub @ q)"
proof (induction p)
  case Nil
  show ?case
  proof (cases sub)
    case Nil
    then show ?thesis by (cases q) simp_all
  next
    case (Cons a as)
    then show ?thesis by simp
  qed
next
  case (Cons c p)
  then show ?case by simp
qed

lemma str_in_join:
  assumes "\<forall>x \<in> set xs. \<not> str_in comma_space x"
  shows "str_in comma_space (join comma_space xs) = (1 < length xs)"
proof (cases xs)
  case Nil
  then show ?thesis by (simp add: comma_space_def)
next
  case (Cons x ys)
  show ?thesis
  proof (cases ys)
    case Nil
    with Cons assms show ?thesis by simp
  next
    case (Cons y zs)
    with \<open>xs = x # ys\<close> show ?thesis
      using str_in_append [of comma_space x "join comma_space (y # zs)"] by simp
  qed
qed

lemma generate_position_format:
  assumes "\<forall>l \<in> set (Language_objects db). \<not> str_in comma_space (in_case l ''gent'')"
  shows "generate_position in_case db self =
     (let rows = filter (\<lambda>l. language.code l \<in> all_languages_codes self) (Language_objects db)
      in position_head @ join comma_space (map (\<lambda>l. in_case l ''gent'') rows) @ position_noun
         @ (if 1 < length rows then suffix_plural else suffix_singular)
         @ (if teacher.native self then native_suffix else []))"
proof -
  let ?rows = "filter (\<lambda>l. language.code l \<in> all_languages_codes self) (Language_objects db)"
  from assms have "\<forall>x \<in> set (map (\<lambda>l. in_case l ''gent'') ?rows). \<not> str_in comma_space x"
    by auto
  from str_in_join [OF this] show ?thesis
    by (simp add: generate_position_def Let_def)
qed

lemma assigned_languages_count:
  assumes "distinct (map language.code (Language_objects db))"
    and "all_languages_codes self \<subseteq> language.code ` set (Language_objects db)"
  shows "length (filter (\<lambda>l. language.code l \<in> all_languages_codes self) (Language_objects db))
         = card (all_languages_codes self)"
proof -
  let ?rows = "filter (\<lambda>l. language.code l \<in> all_languages_codes self) (Language_objects db)"
  from assms(1) have "distinct (map language.code ?rows)"
    by (rule distinct_map_filter)
  then have "card (set (map language.code ?rows)) = length ?rows"
    using distinct_card [of "map language.code ?rows"] by simp
  moreover from assms(2) have "set (map language.code ?rows) = all_languages_codes self"
    by auto
  ultimately show ?thesis by simp
qed

lemma create_position:
  assumes "create in_case db today account account_password kw = Inr (t, db')"
  shows "position t = Some (generate_position in_case db' (t\<lparr>additional_languages := []\<rparr>))"
  using create_result [OF assms] by (simp add: generate_position_def)

text \<open>
  C4. \<open>generate_position\<close> builds the position from the languages assigned to the teacher,
  and \<open>Teacher.create\<close> stores the string it returns; but it is called before the
  additional languages are attached. Onboarding a teacher of English with German as an
  additional language returns a teacher with both languages whose stored position is the
  singular position of English alone, while \<open>generate_position\<close> of that teacher is the
  plural position of English and German.
\<close>

theorem create_position_omits_additional_languages:
  "case create example_in_case catalogue_db end_of_january example_account ''secret''
          two_languages_kwargs of
     Inl e \<Rightarrow> False
   | Inr (t, db') \<Rightarrow>
       additional_languages t = [german]
     \<and> position t
         = Some (position_head @ example_in_case english ''gent'' @ position_noun
                 @ suffix_singular)
     \<and> generate_position example_in_case db' t
         = position_head @ example_in_case english ''gent'' @ comma_space
           @ example_in_case german ''gent'' @ position_noun @ suffix_plural"
  by (simp add: create_def Let_def two_languages_kwargs_def example_kwargs_def catalogue_db_def
        empty_database_def example_account_def english_def german_def next_teacher_pk_def
        save_teacher_def generate_position_def all_languages_codes_def example_in_case_def
        comma_space_def assign_tests_def plus_one_month_def end_of_january_def
        days_in_month_def is_leap_def create_test_def)

end
